theory Spec2Isabelle
  imports Complex_Main
begin

section \<open>Generic circuits\<close>

text \<open>
  The generic circuit type of \<^verbatim>\<open>orquestra.quantum.circuits\<close> is imported by the adapter;
  its code is not part of the adapter's source file. A gate operation is a gate name with
  the qubit indices it acts on, a circuit is its list of operations with its number of
  qubits.
\<close>

datatype gate_operation = GateOperation (gate_name: string) (qubit_indices: "nat list")

record circuit =
  operations :: "gate_operation list"
  n_qubits :: nat

text \<open>\<^verbatim>\<open>I(i)\<close>: the identity gate on qubit \<open>i\<close>.\<close>

definition I :: "nat \<Rightarrow> gate_operation" where
  "I i = GateOperation ''I'' [i]"

text \<open>
  Modelled from the spec: \<^verbatim>\<open>circuit + operation\<close> of the generic circuit library, whose
  code is missing from the source. The append produces a new circuit value: the operation
  comes after the circuit's own, and the number of qubits covers the operation's indices.
  The adapter applies it to identity gates only, which act on one qubit.
\<close>

definition circuit_add :: "circuit \<Rightarrow> gate_operation \<Rightarrow> circuit" where
  "circuit_add c g =
     \<lparr>operations = operations c @ [g],
      n_qubits = max (n_qubits c) (Suc (Max (set (qubit_indices g))))\<rparr>"

section \<open>The wrapped library\<close>

text \<open>
  Everything the adapter calls and does not define is a parameter: the conversion utility,
  the operator library, the backend's circuit and result methods and the array library.
  A call returns its value (\<open>Inr\<close>) or the exception it raises (\<open>Inl\<close>).
  \<open>get_sparse_operator\<close> stands for \<^verbatim>\<open>get_sparse_operator(term, n_qubits=n).toarray()\<close>,
  \<open>item00\<close> for \<^verbatim>\<open>a[0][0]\<close>, \<open>expectation_values_to_real\<close> for
  \<^verbatim>\<open>expectation_values_to_real(ExpectationValues(np.asarray(values)))\<close> and
  \<open>np_array_complex64\<close> for \<^verbatim>\<open>np.array(x, np.complex64)\<close>. Numbers are complex numbers.
\<close>

record ('c, 'n, 't, 'r, 'm, 'e) library =
  export_to_cirq :: "circuit \<Rightarrow> 'e + 'c"
  get_sparse_operator :: "'t \<Rightarrow> nat \<Rightarrow> 'e + 'm"
  np_size :: "'m \<Rightarrow> nat"
  item00 :: "'m \<Rightarrow> 'e + complex"
  with_noise :: "'c \<Rightarrow> 'n \<Rightarrow> 'e + 'c"
  density_matrix_of :: "'r \<Rightarrow> 'e + 'm"
  np_matmul :: "'m \<Rightarrow> 'm \<Rightarrow> 'e + 'm"
  np_trace :: "'m \<Rightarrow> 'e + complex"
  expectation_values_to_real :: "complex list \<Rightarrow> 'e + complex list"
  np_array_complex64 :: "'m \<Rightarrow> 'e + 'm"
  final_state_vector :: "'r \<Rightarrow> 'e + 'm"

text \<open>
  The calls the adapter makes, with their arguments. \<open>Simulate\<close> carries the circuit and
  the keyword arguments \<^verbatim>\<open>param_resolver\<close>, \<^verbatim>\<open>qubit_order\<close> and \<^verbatim>\<open>initial_state\<close>;
  \<open>None\<close> is Python's \<^verbatim>\<open>None\<close>, which is also what the backend takes for a keyword
  that is left out.
\<close>

datatype ('c, 'n, 'p, 'q, 't, 'r, 'm) call =
    Export_to_cirq circuit
  | Get_sparse_operator 't nat
  | Item00 'm
  | With_noise 'c 'n
  | Simulate 'c "'p option" "'q option" "'m option"
  | Density_matrix_of 'r
  | Np_matmul 'm 'm
  | Np_trace 'm
  | Expectation_values_to_real "complex list"
  | Np_array_complex64 'm
  | Final_state_vector 'r

section \<open>The adapter object and the world it runs in\<close>

text \<open>
  \<^verbatim>\<open>CirqBasedSimulator.__init__\<close> stores its four arguments. The wrapped simulator is a
  black box with a state of its own: \<open>simulator\<close> is its \<^verbatim>\<open>simulate\<close> method, from the
  simulator's state and the arguments to the result (or exception) and the new state.
\<close>

record ('s, 'c, 'n, 'p, 'q, 'r, 'm, 'e) cirq_based_simulator =
  simulator :: "'s \<Rightarrow> 'c \<Rightarrow> 'p option \<Rightarrow> 'q option \<Rightarrow> 'm option \<Rightarrow> ('e + 'r) \<times> 's"
  noise_model :: "'n option"
  param_resolver :: "'p option"
  qubit_order :: 'q

text \<open>
  An error is the adapter's own \<^verbatim>\<open>raise RuntimeError(...)\<close> or an exception that was
  raised inside a library call, whatever its Python class.
\<close>

datatype 'e error = RuntimeError string | Raised 'e

text \<open>
  The world: the state of the wrapped simulator, the calls made so far, each with the
  exception it raised if it raised one, and the store of circuit objects (a circuit
  variable of the program is a reference into it).
\<close>

record ('s, 'k, 'e) world =
  sim_state :: 's
  calls :: "('k \<times> 'e option) list"
  heap :: "circuit list"

definition return :: "'a \<Rightarrow> 'w \<Rightarrow> ('x + 'a) \<times> 'w" where
  "return a w = (Inr a, w)"

text \<open>Sequencing: an exception of the first part ends the run, nothing catches it.\<close>

definition and_then ::
  "('w \<Rightarrow> ('x + 'a) \<times> 'w) \<Rightarrow> ('a \<Rightarrow> 'w \<Rightarrow> ('x + 'b) \<times> 'w) \<Rightarrow> 'w \<Rightarrow> ('x + 'b) \<times> 'w" where
  "and_then m f w = (case m w of (Inl x, w') \<Rightarrow> (Inl x, w') | (Inr a, w') \<Rightarrow> f a w')"

text \<open>A library call: it is recorded, and its exception becomes the program's.\<close>

definition lib_call ::
  "'k \<Rightarrow> 'e + 'a \<Rightarrow> ('s, 'k, 'e) world \<Rightarrow> ('e error + 'a) \<times> ('s, 'k, 'e) world" where
  "lib_call k r w =
     (case r of
        Inl x \<Rightarrow> (Inl (Raised x), w\<lparr>calls := calls w @ [(k, Some x)]\<rparr>)
      | Inr a \<Rightarrow> (Inr a, w\<lparr>calls := calls w @ [(k, None)]\<rparr>))"

text \<open>\<^verbatim>\<open>self.simulator.simulate(...)\<close>: the simulator's state moves on, the call is recorded.\<close>

definition simulate ::
  "('s, 'c, 'n, 'p, 'q, 'r, 'm, 'e) cirq_based_simulator \<Rightarrow> 'c \<Rightarrow> 'p option \<Rightarrow> 'q option \<Rightarrow>
   'm option \<Rightarrow> ('s, ('c, 'n, 'p, 'q, 't, 'r, 'm) call, 'e) world \<Rightarrow>
   ('e error + 'r) \<times> ('s, ('c, 'n, 'p, 'q, 't, 'r, 'm) call, 'e) world" where
  "simulate A c p q i w =
     (case simulator A (sim_state w) c p q i of
        (r, s') \<Rightarrow> lib_call (Simulate c p q i) r (w\<lparr>sim_state := s'\<rparr>))"

section \<open>The noisy expectation-value path\<close>

text \<open>\<^verbatim>\<open>_extract_density_matrix\<close>.\<close>

definition extract_density_matrix ::
  "('c, 'n, 't, 'r, 'm, 'e) library \<Rightarrow> 'r \<Rightarrow>
   ('s, ('c, 'n, 'p, 'q, 't, 'r, 'm) call, 'e) world \<Rightarrow>
   ('e error + 'm) \<times> ('s, ('c, 'n, 'p, 'q, 't, 'r, 'm) call, 'e) world" where
  "extract_density_matrix L result = lib_call (Density_matrix_of result) (density_matrix_of L result)"

text \<open>
  The body of the loop over the operator's terms, up to the value it appends:
  \<open>nm\<close> is \<^verbatim>\<open>self.noise_model\<close>, \<open>cirq_circuit\<close> the converted circuit and \<open>circ\<close> the
  reference to the generic circuit.
\<close>

definition term_expectation ::
  "('c, 'n, 't, 'r, 'm, 'e) library \<Rightarrow> ('s, 'c, 'n, 'p, 'q, 'r, 'm, 'e) cirq_based_simulator \<Rightarrow>
   'n \<Rightarrow> 'c \<Rightarrow> nat \<Rightarrow> 't \<Rightarrow> ('s, ('c, 'n, 'p, 'q, 't, 'r, 'm) call, 'e) world \<Rightarrow>
   ('e error + complex) \<times> ('s, ('c, 'n, 'p, 'q, 't, 'r, 'm) call, 'e) world" where
  "term_expectation L A nm cirq_circuit circ pauli_term w =
     and_then
       (lib_call (Get_sparse_operator pauli_term (n_qubits (heap w ! circ)))
          (get_sparse_operator L pauli_term (n_qubits (heap w ! circ))))
       (\<lambda>sparse_pauli_term_ndarray.
          if np_size L sparse_pauli_term_ndarray = 1
          then lib_call (Item00 sparse_pauli_term_ndarray) (item00 L sparse_pauli_term_ndarray)
          else
            and_then (lib_call (With_noise cirq_circuit nm) (with_noise L cirq_circuit nm))
              (\<lambda>noisy_circuit.
            and_then (simulate A noisy_circuit None None None)
              (\<lambda>result.
            and_then (extract_density_matrix L result)
              (\<lambda>rho.
            and_then (lib_call (Np_matmul rho sparse_pauli_term_ndarray)
                        (np_matmul L rho sparse_pauli_term_ndarray))
              (\<lambda>product.
            and_then (lib_call (Np_trace product) (np_trace L product))
              (\<lambda>tr. return (complex_of_real (Re tr)))))))) w"

text \<open>The loop: \<open>values\<close> grows by one value per term, in the order of the terms.\<close>

fun terms_loop ::
  "('c, 'n, 't, 'r, 'm, 'e) library \<Rightarrow> ('s, 'c, 'n, 'p, 'q, 'r, 'm, 'e) cirq_based_simulator \<Rightarrow>
   'n \<Rightarrow> 'c \<Rightarrow> nat \<Rightarrow> complex list \<Rightarrow> 't list \<Rightarrow>
   ('s, ('c, 'n, 'p, 'q, 't, 'r, 'm) call, 'e) world \<Rightarrow>
   ('e error + complex list) \<times> ('s, ('c, 'n, 'p, 'q, 't, 'r, 'm) call, 'e) world" where
  "terms_loop L A nm cirq_circuit circ values [] w = (Inr values, w)"
| "terms_loop L A nm cirq_circuit circ values (pauli_term # rest) w =
     (case term_expectation L A nm cirq_circuit circ pauli_term w of
        (Inl x, w') \<Rightarrow> (Inl x, w')
      | (Inr expectation_value, w') \<Rightarrow>
          terms_loop L A nm cirq_circuit circ (values @ [expectation_value]) rest w')"

definition get_exact_noisy_expectation_values ::
  "('c, 'n, 't, 'r, 'm, 'e) library \<Rightarrow> ('s, 'c, 'n, 'p, 'q, 'r, 'm, 'e) cirq_based_simulator \<Rightarrow>
   nat \<Rightarrow> 't list \<Rightarrow> ('s, ('c, 'n, 'p, 'q, 't, 'r, 'm) call, 'e) world \<Rightarrow>
   ('e error + complex list) \<times> ('s, ('c, 'n, 'p, 'q, 't, 'r, 'm) call, 'e) world" where
  "get_exact_noisy_expectation_values L A circ terms w =
     (case noise_model A of
        None \<Rightarrow>
          (Inl (RuntimeError ''Please provide noise model to get exact noisy expectation values''), w)
      | Some nm \<Rightarrow>
          and_then (lib_call (Export_to_cirq (heap w ! circ)) (export_to_cirq L (heap w ! circ)))
            (\<lambda>cirq_circuit.
          and_then (terms_loop L A nm cirq_circuit circ [] terms)
            (\<lambda>values.
          lib_call (Expectation_values_to_real values) (expectation_values_to_real L values))) w)"

section \<open>The wavefunction path\<close>

text \<open>
  Modelled from the spec: \<^verbatim>\<open>circuit += I(i)\<close> on a generic circuit, which has no
  in-place addition in the library that is missing from the source. The statement stores
  the sum as a new circuit object and the local variable refers to it from then on; the
  object it referred to before is not written.
\<close>

definition circuit_iadd ::
  "nat \<Rightarrow> gate_operation \<Rightarrow> ('s, 'k, 'e) world \<Rightarrow> nat \<times> ('s, 'k, 'e) world" where
  "circuit_iadd circ g w =
     (length (heap w), w\<lparr>heap := heap w @ [circuit_add (heap w ! circ) g]\<rparr>)"

fun add_identities ::
  "nat list \<Rightarrow> nat \<Rightarrow> ('s, 'k, 'e) world \<Rightarrow> nat \<times> ('s, 'k, 'e) world" where
  "add_identities [] circ w = (circ, w)"
| "add_identities (i # rest) circ w =
     (case circuit_iadd circ (I i) w of (circ', w') \<Rightarrow> add_identities rest circ' w')"

definition get_wavefunction_from_native_circuit ::
  "('c, 'n, 't, 'r, 'm, 'e) library \<Rightarrow> ('s, 'c, 'n, 'p, 'q, 'r, 'm, 'e) cirq_based_simulator \<Rightarrow>
   nat \<Rightarrow> 'm \<Rightarrow> ('s, ('c, 'n, 'p, 'q, 't, 'r, 'm) call, 'e) world \<Rightarrow>
   ('e error + 'm) \<times> ('s, ('c, 'n, 'p, 'q, 't, 'r, 'm) call, 'e) world" where
  "get_wavefunction_from_native_circuit L A circ initial_state w =
     (case add_identities [0..<n_qubits (heap w ! circ)] circ w of
        (circ', w1) \<Rightarrow>
          and_then (lib_call (Export_to_cirq (heap w1 ! circ')) (export_to_cirq L (heap w1 ! circ')))
            (\<lambda>cirq_circuit.
          and_then (lib_call (Np_array_complex64 initial_state) (np_array_complex64 L initial_state))
            (\<lambda>initial_state'.
          and_then (simulate A cirq_circuit (param_resolver A) (Some (qubit_order A))
                      (Some initial_state'))
            (\<lambda>simulated_result.
          lib_call (Final_state_vector simulated_result)
            (final_state_vector L simulated_result)))) w1)"

section \<open>Call records and what they say about a run\<close>

text \<open>The exceptions that the recorded calls raised, in order.\<close>

fun raised :: "('k \<times> 'e option) list \<Rightarrow> 'e list" where
  "raised [] = []"
| "raised ((k, None) # es) = raised es"
| "raised ((k, Some x) # es) = x # raised es"

text \<open>
  Whether a result is a raised \<^verbatim>\<open>RuntimeError\<close>: the adapter's own is one, and an
  exception of a library call is one when \<open>is_runtime_error\<close>, which stands for
  \<^verbatim>\<open>isinstance(x, RuntimeError)\<close>, says so.
\<close>

definition raises_RuntimeError :: "('e \<Rightarrow> bool) \<Rightarrow> 'e error + 'a \<Rightarrow> bool" where
  "raises_RuntimeError is_runtime_error r =
     (case r of
        Inl (RuntimeError msg) \<Rightarrow> True
      | Inl (Raised x) \<Rightarrow> is_runtime_error x
      | Inr a \<Rightarrow> False)"


definition is_simulate :: "('c, 'n, 'p, 'q, 't, 'r, 'm) call \<Rightarrow> bool" where
  "is_simulate k = (case k of Simulate c p q i \<Rightarrow> True | _ \<Rightarrow> False)"

text \<open>
  A result agrees with the calls of its run: a value means that no call raised, an error
  is the exception of the last call, and no call before it raised.
\<close>

definition outcome_logged :: "'e error + 'a \<Rightarrow> ('k \<times> 'e option) list \<Rightarrow> bool" where
  "outcome_logged r new =
     (case r of
        Inr a \<Rightarrow> raised new = []
      | Inl e \<Rightarrow> (\<exists>pre k x. new = pre @ [(k, Some x)] \<and> raised pre = [] \<and> e = Raised x))"

text \<open>
  A program run from \<open>w\<close> only adds calls, each of them satisfies \<open>P\<close>, and its result
  agrees with them.
\<close>

definition run_at ::
  "('k \<Rightarrow> bool) \<Rightarrow> (('s, 'k, 'e) world \<Rightarrow> ('e error + 'a) \<times> ('s, 'k, 'e) world) \<Rightarrow>
   ('s, 'k, 'e) world \<Rightarrow> bool" where
  "run_at P m w =
     (\<exists>new. calls (snd (m w)) = calls w @ new \<and> list_all P (map fst new) \<and>
            outcome_logged (fst (m w)) new)"

text \<open>
  The calls of the noisy path after the conversion: no further conversion, and a simulation
  only of the circuit that \<open>with_noise\<close> returned, with no keyword argument.
\<close>

definition noisy_step ::
  "('c, 'n, 't, 'r, 'm, 'e) library \<Rightarrow> 'c \<Rightarrow> 'n \<Rightarrow> ('c, 'n, 'p, 'q, 't, 'r, 'm) call \<Rightarrow> bool" where
  "noisy_step L cc nm k =
     (case k of
        Export_to_cirq c \<Rightarrow> False
      | Simulate x p q i \<Rightarrow> with_noise L cc nm = Inr x \<and> p = None \<and> q = None \<and> i = None
      | _ \<Rightarrow> True)"


text \<open>A term whose array has exactly one entry.\<close>

definition constant_term :: "('c, 'n, 't, 'r, 'm, 'e) library \<Rightarrow> nat \<Rightarrow> 't \<Rightarrow> bool" where
  "constant_term L n t =
     (case get_sparse_operator L t n of Inl x \<Rightarrow> False | Inr arr \<Rightarrow> np_size L arr = 1)"

section \<open>A small instance\<close>

text \<open>
  A library to run the adapter on: arrays are diagonals, a backend circuit is a list of
  operations, noise is one more operation, the simulator always returns the state
  \<open>[1, 0]\<close> and counts its runs. The empty term cannot be made sparse.
\<close>

definition example_library ::
  "(gate_operation list, string, complex list, complex list, complex list, string) library" where
  "example_library =
     \<lparr>export_to_cirq = (\<lambda>c. Inr (operations c)),
      get_sparse_operator = (\<lambda>t n. if t = [] then Inl ''ValueError'' else Inr t),
      np_size = length,
      item00 = (\<lambda>a. case a of [] \<Rightarrow> Inl ''IndexError'' | x # xs \<Rightarrow> Inr x),
      with_noise = (\<lambda>c n. Inr (c @ [GateOperation n []])),
      density_matrix_of = (\<lambda>r. Inr r),
      np_matmul = (\<lambda>a b. Inr (map2 (*) a b)),
      np_trace = (\<lambda>a. Inr (sum_list a)),
      expectation_values_to_real = (\<lambda>vs. Inr (map (\<lambda>v. complex_of_real (Re v)) vs)),
      np_array_complex64 = (\<lambda>a. Inr a),
      final_state_vector = (\<lambda>r. Inr r)\<rparr>"

definition example_simulator ::
  "(nat, gate_operation list, string, nat, nat, complex list, complex list, string)
   cirq_based_simulator" where
  "example_simulator =
     \<lparr>simulator = (\<lambda>s c p q i. (Inr [1, 0], Suc s)),
      noise_model = Some ''depolarize'',
      param_resolver = Some 7,
      qubit_order = 0\<rparr>"

definition example_plain_simulator ::
  "(nat, gate_operation list, string, nat, nat, complex list, complex list, string)
   cirq_based_simulator" where
  "example_plain_simulator = example_simulator\<lparr>noise_model := None\<rparr>"

text \<open>A wrapped simulator whose \<^verbatim>\<open>simulate\<close> raises a \<^verbatim>\<open>RuntimeError\<close>.\<close>

definition example_failing_simulator ::
  "(nat, gate_operation list, string, nat, nat, complex list, complex list, string)
   cirq_based_simulator" where
  "example_failing_simulator =
     example_simulator\<lparr>simulator := (\<lambda>s c p q i. (Inl ''RuntimeError'', Suc s))\<rparr>"

definition example_world ::
  "(nat, (gate_operation list, string, nat, nat, complex list, complex list, complex list) call,
    string) world" where
  "example_world =
     \<lparr>sim_state = 0, calls = [],
      heap = [\<lparr>operations = [GateOperation ''X'' [0]], n_qubits = 2\<rparr>]\<rparr>"

section \<open>Auxiliary facts\<close>

subsection \<open>One term of the operator\<close>

lemmas run_defs = and_then_def lib_call_def simulate_def extract_density_matrix_def return_def

lemma term_expectation_Inr:
  assumes "term_expectation L A nm cc circ t w = (Inr v, w')"
  shows "\<exists>arr. get_sparse_operator L t (n_qubits (heap w ! circ)) = Inr arr \<and>
     (if np_size L arr = 1
      then item00 L arr = Inr v \<and>
           w' = w\<lparr>calls := calls w @ [(Get_sparse_operator t (n_qubits (heap w ! circ)), None),
                                         (Item00 arr, None)]\<rparr>
      else \<exists>noisy res s' rho prod z.
             with_noise L cc nm = Inr noisy \<and>
             simulator A (sim_state w) noisy None None None = (Inr res, s') \<and>
             density_matrix_of L res = Inr rho \<and>
             np_matmul L rho arr = Inr prod \<and>
             np_trace L prod = Inr z \<and>
             v = complex_of_real (Re z) \<and>
             w' = w\<lparr>sim_state := s',
                    calls := calls w @
                      [(Get_sparse_operator t (n_qubits (heap w ! circ)), None),
                       (With_noise cc nm, None),
                       (Simulate noisy None None None, None),
                       (Density_matrix_of res, None),
                       (Np_matmul rho arr, None),
                       (Np_trace prod, None)]\<rparr>)"
  using assms unfolding term_expectation_def run_defs
  by (auto split: sum.splits prod.splits if_splits)

lemma term_expectation_heap: "heap (snd (term_expectation L A nm cc circ t w)) = heap w"
  unfolding term_expectation_def run_defs
  by (auto split: sum.splits prod.splits if_splits)

subsection \<open>Runs and their calls\<close>

lemma raised_append: "raised (xs @ ys) = raised xs @ raised ys"
  by (induction xs rule: raised.induct) simp_all

lemma run_at_return: "run_at P (return a) w"
  by (simp add: run_at_def return_def outcome_logged_def)

lemma run_at_lib_call: "P k \<Longrightarrow> run_at P (lib_call k r) w"
  unfolding run_at_def lib_call_def outcome_logged_def
  by (cases r) (auto intro: exI [of _ "[]"])

lemma run_at_simulate: "P (Simulate c p q i) \<Longrightarrow> run_at P (simulate A c p q i) w"
  unfolding run_at_def simulate_def lib_call_def outcome_logged_def
  by (auto split: prod.splits sum.splits intro: exI [of _ "[]"])

lemma run_at_and_then:
  assumes m: "run_at P m w" and f: "\<And>a w'. run_at P (f a) w'"
  shows "run_at P (and_then m f) w"
proof (cases "m w")
  case (Pair r w1)
  from m Pair obtain new1 where n1: "calls w1 = calls w @ new1" "list_all P (map fst new1)"
      "outcome_logged r new1"
    by (auto simp: run_at_def)
  show ?thesis
  proof (cases r)
    case (Inl e)
    with Pair n1 show ?thesis
      by (auto simp: run_at_def and_then_def outcome_logged_def)
  next
    case (Inr a)
    from f [of a w1] obtain new2 where n2: "calls (snd (f a w1)) = calls w1 @ new2"
        "list_all P (map fst new2)" "outcome_logged (fst (f a w1)) new2"
      by (auto simp: run_at_def)
    have r1: "raised new1 = []" using n1 Inr by (simp add: outcome_logged_def)
    have "outcome_logged (fst (f a w1)) (new1 @ new2)"
    proof (cases "fst (f a w1)")
      case (Inl e)
      with n2 obtain pre k x where "new2 = pre @ [(k, Some x)]" "raised pre = []" "e = Raised x"
        by (auto simp: outcome_logged_def)
      then have "new1 @ new2 = (new1 @ pre) @ [(k, Some x)] \<and> raised (new1 @ pre) = [] \<and> e = Raised x"
        using r1 by (simp add: raised_append)
      then show ?thesis using Inl unfolding outcome_logged_def by (simp only: sum.case) blast
    next
      case (Inr b)
      with n2 r1 show ?thesis by (simp add: outcome_logged_def raised_append)
    qed
    with Pair Inr n1 n2 show ?thesis
      by (auto simp: run_at_def and_then_def intro!: exI [of _ "new1 @ new2"])
  qed
qed

lemma run_at_cong: "m w = m' w \<Longrightarrow> run_at P m' w \<Longrightarrow> run_at P m w"
  by (simp add: run_at_def)

lemma run_at_term_expectation:
  assumes "\<And>t n. P (Get_sparse_operator t n)" "\<And>a. P (Item00 a)" "P (With_noise cc nm)"
    "\<And>x. with_noise L cc nm = Inr x \<Longrightarrow> P (Simulate x None None None)"
    "\<And>r. P (Density_matrix_of r)" "\<And>a b. P (Np_matmul a b)" "\<And>a. P (Np_trace a)"
  shows "run_at P (term_expectation L A nm cc circ t) w"
proof (rule run_at_cong [OF term_expectation_def], rule run_at_and_then)
  show "run_at P (lib_call (Get_sparse_operator t (n_qubits (heap w ! circ)))
          (get_sparse_operator L t (n_qubits (heap w ! circ)))) w"
    by (rule run_at_lib_call) (rule assms)
next
  fix arr w1
  show "run_at P (if np_size L arr = 1 then lib_call (Item00 arr) (item00 L arr)
      else and_then (lib_call (With_noise cc nm) (with_noise L cc nm))
        (\<lambda>noisy_circuit. and_then (simulate A noisy_circuit None None None)
        (\<lambda>result. and_then (extract_density_matrix L result)
        (\<lambda>rho. and_then (lib_call (Np_matmul rho arr) (np_matmul L rho arr))
        (\<lambda>product. and_then (lib_call (Np_trace product) (np_trace L product))
        (\<lambda>tr. return (complex_of_real (Re tr)))))))) w1"
  proof (cases "np_size L arr = 1")
    case True
    then show ?thesis by (simp add: run_at_lib_call assms)
  next
    case False
    show ?thesis
    proof (cases "with_noise L cc nm")
      case (Inl x)
      then show ?thesis using False assms(3)
        by (auto simp: run_at_def and_then_def lib_call_def outcome_logged_def
            intro: exI [of _ "[]"])
    next
      case (Inr x)
      have rest: "run_at P (and_then (simulate A x None None None)
        (\<lambda>result. and_then (extract_density_matrix L result)
        (\<lambda>rho. and_then (lib_call (Np_matmul rho arr) (np_matmul L rho arr))
        (\<lambda>product. and_then (lib_call (Np_trace product) (np_trace L product))
        (\<lambda>tr. return (complex_of_real (Re tr))))))) w'" for w'
        unfolding extract_density_matrix_def
        by (intro run_at_and_then run_at_simulate run_at_lib_call run_at_return assms Inr)
      have "run_at P (and_then (lib_call (With_noise cc nm) (Inr x))
        (\<lambda>noisy_circuit. and_then (simulate A noisy_circuit None None None)
        (\<lambda>result. and_then (extract_density_matrix L result)
        (\<lambda>rho. and_then (lib_call (Np_matmul rho arr) (np_matmul L rho arr))
        (\<lambda>product. and_then (lib_call (Np_trace product) (np_trace L product))
        (\<lambda>tr. return (complex_of_real (Re tr)))))))) w1"
        apply (rule run_at_cong [where m' = "and_then (lib_call (With_noise cc nm) (Inr x))
           (\<lambda>_. and_then (simulate A x None None None)
        (\<lambda>result. and_then (extract_density_matrix L result)
        (\<lambda>rho. and_then (lib_call (Np_matmul rho arr) (np_matmul L rho arr))
        (\<lambda>product. and_then (lib_call (Np_trace product) (np_trace L product))
        (\<lambda>tr. return (complex_of_real (Re tr)))))))"])
         apply (simp add: and_then_def lib_call_def)
        apply (rule run_at_and_then)
         apply (rule run_at_lib_call, rule assms)
        apply (rule rest)
        done
      then show ?thesis using False Inr by simp
    qed
  qed
qed

subsection \<open>The loop and the noisy path\<close>

lemma run_at_mono: "run_at P m w \<Longrightarrow> (\<And>k. P k \<Longrightarrow> Q k) \<Longrightarrow> run_at Q m w"
  unfolding run_at_def by (auto simp: list_all_iff)

lemma terms_loop_Cons:
  "terms_loop L A nm cc circ acc (t # ts) =
     and_then (term_expectation L A nm cc circ t) (\<lambda>v. terms_loop L A nm cc circ (acc @ [v]) ts)"
  by (rule ext) (simp add: and_then_def split: prod.splits sum.splits)

lemma run_at_terms_loop:
  "run_at (noisy_step L cc nm) (terms_loop L A nm cc circ acc ts) w"
proof (induction ts arbitrary: acc w)
  case Nil
  show ?case by (simp add: run_at_def outcome_logged_def)
next
  case (Cons t ts)
  have "run_at (noisy_step L cc nm) (term_expectation L A nm cc circ t) w'" for w'
    by (rule run_at_term_expectation) (simp_all add: noisy_step_def)
  then show ?case
    unfolding terms_loop_Cons by (rule run_at_and_then) (rule Cons.IH)
qed

lemma outcome_logged_Cons:
  "outcome_logged r new \<Longrightarrow> outcome_logged r ((k, None) # new)"
  unfolding outcome_logged_def
  by (cases r) (auto intro: exI [of _ "(k, None) # pre" for pre])

lemma noisy_run:
  assumes "noise_model A = Some nm"
  shows "\<exists>out rest.
     calls (snd (get_exact_noisy_expectation_values L A circ ts w)) =
       calls w @ (Export_to_cirq (heap w ! circ), out) # rest \<and>
     outcome_logged (fst (get_exact_noisy_expectation_values L A circ ts w))
       ((Export_to_cirq (heap w ! circ), out) # rest) \<and>
     (case export_to_cirq L (heap w ! circ) of
        Inl x \<Rightarrow> out = Some x \<and> rest = []
      | Inr cc \<Rightarrow> out = None \<and> list_all (noisy_step L cc nm) (map fst rest))"
proof (cases "export_to_cirq L (heap w ! circ)")
  case (Inl x)
  then show ?thesis using assms
    by (simp add: get_exact_noisy_expectation_values_def and_then_def lib_call_def
        outcome_logged_def)
next
  case (Inr cc)
  define w1 where "w1 = w\<lparr>calls := calls w @ [(Export_to_cirq (heap w ! circ), None)]\<rparr>"
  define rest_prog where "rest_prog = and_then (terms_loop L A nm cc circ [] ts)
     (\<lambda>values. lib_call (Expectation_values_to_real values) (expectation_values_to_real L values))"
  have eq: "get_exact_noisy_expectation_values L A circ ts w = rest_prog w1"
    using assms Inr
    by (simp add: get_exact_noisy_expectation_values_def and_then_def lib_call_def w1_def
        rest_prog_def)
  have "run_at (noisy_step L cc nm) rest_prog w1"
    unfolding rest_prog_def
    by (rule run_at_and_then, rule run_at_terms_loop, rule run_at_lib_call)
       (simp add: noisy_step_def)
  then obtain new where "calls (snd (rest_prog w1)) = calls w1 @ new"
      "list_all (noisy_step L cc nm) (map fst new)" "outcome_logged (fst (rest_prog w1)) new"
    by (auto simp: run_at_def)
  then show ?thesis using Inr eq
    by (auto simp: w1_def intro: outcome_logged_Cons)
qed

subsection \<open>Appending identities\<close>

lemma add_identities_frame:
  "calls (snd (add_identities js circ w)) = calls w \<and>
   sim_state (snd (add_identities js circ w)) = sim_state w \<and>
   take (length (heap w)) (heap (snd (add_identities js circ w))) = heap w"
proof (induction js arbitrary: circ w)
  case Nil
  show ?case by simp
next
  case (Cons j js)
  have "take (length (heap w)) (heap (snd (add_identities js (length (heap w))
          (w\<lparr>heap := heap w @ [circuit_add (heap w ! circ) (I j)]\<rparr>)))) =
        take (length (heap w)) (take (length (heap w @ [circuit_add (heap w ! circ) (I j)]))
          (heap (snd (add_identities js (length (heap w))
          (w\<lparr>heap := heap w @ [circuit_add (heap w ! circ) (I j)]\<rparr>)))))"
    by (simp add: min_def)
  also have "\<dots> = heap w"
    using Cons.IH [of "length (heap w)" "w\<lparr>heap := heap w @ [circuit_add (heap w ! circ) (I j)]\<rparr>"]
    by simp
  finally show ?case
    using Cons.IH [of "length (heap w)" "w\<lparr>heap := heap w @ [circuit_add (heap w ! circ) (I j)]\<rparr>"]
    by (simp add: circuit_iadd_def)
qed

lemma add_identities_circuit:
  "heap (snd (add_identities js circ w)) ! fst (add_identities js circ w) =
   foldl circuit_add (heap w ! circ) (map I js)"
proof (induction js arbitrary: circ w)
  case Nil
  show ?case by simp
next
  case (Cons j js)
  show ?case
    using Cons.IH [of "length (heap w)" "w\<lparr>heap := heap w @ [circuit_add (heap w ! circ) (I j)]\<rparr>"]
    by (simp add: circuit_iadd_def)
qed

lemma foldl_circuit_add_operations:
  "operations (foldl circuit_add c (map I js)) = operations c @ map I js"
  by (induction js arbitrary: c) (simp_all add: circuit_add_def)

lemma circuit_add_I_n_qubits: "j < n_qubits c \<Longrightarrow> n_qubits (circuit_add c (I j)) = n_qubits c"
  by (simp add: circuit_add_def I_def max_def)

lemma foldl_circuit_add_n_qubits:
  "\<forall>j\<in>set js. j < n_qubits c \<Longrightarrow> n_qubits (foldl circuit_add c (map I js)) = n_qubits c"
proof (induction js arbitrary: c)
  case Nil
  show ?case by simp
next
  case (Cons j js)
  then have "n_qubits (circuit_add c (I j)) = n_qubits c"
    by (simp add: circuit_add_I_n_qubits)
  with Cons.prems Cons.IH [of "circuit_add c (I j)"] show ?case by simp
qed

subsection \<open>Runs that return\<close>

lemma terms_loop_Inr:
  assumes "terms_loop L A nm cc circ acc ts w = (Inr vs, w')"
  shows "\<exists>new. vs = acc @ new \<and> length new = length ts \<and> heap w' = heap w \<and>
     (\<forall>i<length ts. \<exists>wi wi'.
        terms_loop L A nm cc circ acc (take i ts) w = (Inr (acc @ take i new), wi) \<and>
        heap wi = heap w \<and>
        term_expectation L A nm cc circ (ts ! i) wi = (Inr (new ! i), wi'))"
  using assms
proof (induction ts arbitrary: acc w)
  case Nil
  then show ?case by simp
next
  case (Cons t ts)
  from Cons.prems obtain v w1 where
    t: "term_expectation L A nm cc circ t w = (Inr v, w1)" and
    r: "terms_loop L A nm cc circ (acc @ [v]) ts w1 = (Inr vs, w')"
    by (auto split: prod.splits sum.splits)
  have h1: "heap w1 = heap w"
    using term_expectation_heap [of L A nm cc circ t w] t by simp
  from Cons.IH [OF r] obtain new where
    n: "vs = (acc @ [v]) @ new" "length new = length ts" "heap w' = heap w1" and
    each: "\<And>i. i < length ts \<Longrightarrow> \<exists>wi wi'.
        terms_loop L A nm cc circ (acc @ [v]) (take i ts) w1 = (Inr ((acc @ [v]) @ take i new), wi) \<and>
        heap wi = heap w1 \<and>
        term_expectation L A nm cc circ (ts ! i) wi = (Inr (new ! i), wi')"
    by blast
  have "\<exists>wi wi'.
        terms_loop L A nm cc circ acc (take i (t # ts)) w = (Inr (acc @ take i (v # new)), wi) \<and>
        heap wi = heap w \<and>
        term_expectation L A nm cc circ ((t # ts) ! i) wi = (Inr ((v # new) ! i), wi')"
    if "i < length (t # ts)" for i
  proof (cases i)
    case 0
    then show ?thesis using t by auto
  next
    case (Suc j)
    with that have "j < length ts" by simp
    from each [OF this] show ?thesis using Suc t h1 by auto
  qed
  then show ?case using n h1
    by (intro exI [of _ "v # new"]) simp
qed

lemma noisy_Inr:
  assumes "get_exact_noisy_expectation_values L A circ ts w = (Inr rs, w')"
  shows "\<exists>nm cc vs w2.
     noise_model A = Some nm \<and> export_to_cirq L (heap w ! circ) = Inr cc \<and>
     terms_loop L A nm cc circ [] ts
       (w\<lparr>calls := calls w @ [(Export_to_cirq (heap w ! circ), None)]\<rparr>) = (Inr vs, w2) \<and>
     expectation_values_to_real L vs = Inr rs \<and>
     w' = w2\<lparr>calls := calls w2 @ [(Expectation_values_to_real vs, None)]\<rparr>"
  using assms unfolding get_exact_noisy_expectation_values_def and_then_def lib_call_def
  by (auto split: option.splits sum.splits prod.splits)


lemma wf_unfold:
  "get_wavefunction_from_native_circuit L A circ init w =
     (let w1 = snd (add_identities [0..<n_qubits (heap w ! circ)] circ w);
          c' = foldl circuit_add (heap w ! circ) (map I [0..<n_qubits (heap w ! circ)])
      in and_then (lib_call (Export_to_cirq c') (export_to_cirq L c'))
            (\<lambda>cirq_circuit.
          and_then (lib_call (Np_array_complex64 init) (np_array_complex64 L init))
            (\<lambda>initial_state'.
          and_then (simulate A cirq_circuit (param_resolver A) (Some (qubit_order A))
                      (Some initial_state'))
            (\<lambda>simulated_result.
          lib_call (Final_state_vector simulated_result)
            (final_state_vector L simulated_result)))) w1)"
  unfolding get_wavefunction_from_native_circuit_def Let_def
  by (simp add: add_identities_circuit [symmetric] split: prod.splits)

lemma wf_tail_heap:
  "heap (snd (and_then (lib_call k1 r1)
            (\<lambda>cirq_circuit.
          and_then (lib_call (k2 cirq_circuit) (r2 cirq_circuit))
            (\<lambda>initial_state'.
          and_then (simulate A cirq_circuit p q (Some initial_state'))
            (\<lambda>simulated_result.
          lib_call (k3 simulated_result) (r3 simulated_result)))) w1)) = heap w1"
  unfolding and_then_def lib_call_def simulate_def
  by (auto split: sum.splits prod.splits)

lemma wf_Inr:
  assumes "get_wavefunction_from_native_circuit L A circ init w = (Inr sv, w')"
  shows "\<exists>cc i res s'.
     export_to_cirq L (foldl circuit_add (heap w ! circ) (map I [0..<n_qubits (heap w ! circ)])) = Inr cc \<and>
     np_array_complex64 L init = Inr i \<and>
     simulator A (sim_state w) cc (param_resolver A) (Some (qubit_order A)) (Some i) = (Inr res, s') \<and>
     final_state_vector L res = Inr sv \<and>
     sim_state w' = s' \<and>
     calls w' = calls w @
       [(Export_to_cirq (foldl circuit_add (heap w ! circ) (map I [0..<n_qubits (heap w ! circ)])), None),
        (Np_array_complex64 init, None),
        (Simulate cc (param_resolver A) (Some (qubit_order A)) (Some i), None),
        (Final_state_vector res, None)]"
  using assms unfolding wf_unfold Let_def and_then_def lib_call_def simulate_def
  by (auto simp: add_identities_frame split: sum.splits prod.splits)

lemma noisy_terms:
  assumes "get_exact_noisy_expectation_values L A circ ts w = (Inr rs, w')"
  shows "\<exists>nm cc vs.
     noise_model A = Some nm \<and> export_to_cirq L (heap w ! circ) = Inr cc \<and>
     expectation_values_to_real L vs = Inr rs \<and> length vs = length ts \<and>
     (\<forall>i<length ts. \<exists>wi wi'.
        terms_loop L A nm cc circ [] (take i ts)
          (w\<lparr>calls := calls w @ [(Export_to_cirq (heap w ! circ), None)]\<rparr>) = (Inr (take i vs), wi) \<and>
        heap wi = heap w \<and>
        term_expectation L A nm cc circ (ts ! i) wi = (Inr (vs ! i), wi'))"
proof -
  from noisy_Inr [OF assms] obtain nm cc vs w2 where
    a: "noise_model A = Some nm" "export_to_cirq L (heap w ! circ) = Inr cc"
       "expectation_values_to_real L vs = Inr rs" and
    l: "terms_loop L A nm cc circ [] ts
       (w\<lparr>calls := calls w @ [(Export_to_cirq (heap w ! circ), None)]\<rparr>) = (Inr vs, w2)"
    by blast
  from terms_loop_Inr [OF l] a show ?thesis
    by (intro exI [of _ nm] exI [of _ cc] exI [of _ vs]) auto
qed

lemmas example_defs = example_library_def example_simulator_def example_plain_simulator_def
  example_world_def

lemmas prog_defs = get_exact_noisy_expectation_values_def get_wavefunction_from_native_circuit_def
  term_expectation_def and_then_def lib_call_def simulate_def extract_density_matrix_def return_def
  circuit_iadd_def circuit_add_def I_def

lemma term_expectation_simulated_calls:
  assumes "get_sparse_operator L t (n_qubits (heap w ! circ)) = Inr arr" "np_size L arr \<noteq> 1"
  shows "\<exists>out rest.
     calls (snd (term_expectation L A nm cc circ t w)) =
       calls w @ (Get_sparse_operator t (n_qubits (heap w ! circ)), None) #
         (With_noise cc nm, out) # rest \<and>
     (case with_noise L cc nm of
        Inl x \<Rightarrow> rest = []
      | Inr noisy \<Rightarrow>
          (\<exists>out' rest'. rest = (Simulate noisy None None None, out') # rest' \<and>
             list_all (\<lambda>k. \<not> is_simulate k) (map fst rest')))"
  using assms unfolding term_expectation_def run_defs
  by (auto simp: is_simulate_def split: sum.splits prod.splits)


lemma term_expectation_constant:
  assumes "get_sparse_operator L t (n_qubits (heap w ! circ)) = Inr arr" "np_size L arr = 1"
  shows "term_expectation L A nm cc circ t w =
     lib_call (Item00 arr) (item00 L arr)
       (w\<lparr>calls := calls w @ [(Get_sparse_operator t (n_qubits (heap w ! circ)), None)]\<rparr>)"
  using assms by (simp add: term_expectation_def and_then_def lib_call_def)

lemma terms_loop_simulations:
  assumes "terms_loop L A nm cc circ acc ts w = (Inr vs, w')"
  shows "\<exists>new. calls w' = calls w @ new \<and>
     length (filter is_simulate (map fst new)) =
       length (filter (\<lambda>t. \<not> constant_term L (n_qubits (heap w ! circ)) t) ts)"
  using assms
proof (induction ts arbitrary: acc w)
  case Nil
  then show ?case by simp
next
  case (Cons t ts)
  from Cons.prems obtain v w1 where
    t: "term_expectation L A nm cc circ t w = (Inr v, w1)" and
    r: "terms_loop L A nm cc circ (acc @ [v]) ts w1 = (Inr vs, w')"
    by (auto split: prod.splits sum.splits)
  have h1: "heap w1 = heap w"
    using term_expectation_heap [of L A nm cc circ t w] t by simp
  from Cons.IH [OF r] obtain new where
    n: "calls w' = calls w1 @ new"
       "length (filter is_simulate (map fst new)) =
          length (filter (\<lambda>t. \<not> constant_term L (n_qubits (heap w ! circ)) t) ts)"
    unfolding h1 by blast
  have "\<exists>new1. calls w1 = calls w @ new1 \<and>
     length (filter is_simulate (map fst new1)) =
       (if constant_term L (n_qubits (heap w ! circ)) t then 0 else 1)"
  proof -
    from term_expectation_Inr [OF t] obtain arr where
      g: "get_sparse_operator L t (n_qubits (heap w ! circ)) = Inr arr" and
      c: "if np_size L arr = 1
          then item00 L arr = Inr v \<and>
            w1 = w\<lparr>calls := calls w @ [(Get_sparse_operator t (n_qubits (heap w ! circ)), None),
                                         (Item00 arr, None)]\<rparr>
          else \<exists>noisy res s' rho prod z.
             with_noise L cc nm = Inr noisy \<and>
             simulator A (sim_state w) noisy None None None = (Inr res, s') \<and>
             density_matrix_of L res = Inr rho \<and>
             np_matmul L rho arr = Inr prod \<and>
             np_trace L prod = Inr z \<and>
             v = complex_of_real (Re z) \<and>
             w1 = w\<lparr>sim_state := s',
                    calls := calls w @
                      [(Get_sparse_operator t (n_qubits (heap w ! circ)), None),
                       (With_noise cc nm, None),
                       (Simulate noisy None None None, None),
                       (Density_matrix_of res, None),
                       (Np_matmul rho arr, None),
                       (Np_trace prod, None)]\<rparr>"
      by blast
    show ?thesis
    proof (cases "np_size L arr = 1")
      case True
      with c g show ?thesis by (auto simp: constant_term_def is_simulate_def)
    next
      case False
      with c g show ?thesis by (auto simp: constant_term_def is_simulate_def)
    qed
  qed
  then obtain new1 where "calls w1 = calls w @ new1"
    "length (filter is_simulate (map fst new1)) =
       (if constant_term L (n_qubits (heap w ! circ)) t then 0 else 1)"
    by blast
  with n show ?case
    by (intro exI [of _ "new1 @ new"]) simp
qed

subsection \<open>Where the calls of a term lie in a run\<close>

lemma term_expectation_calls: "\<exists>new. calls (snd (term_expectation L A nm cc circ t w)) = calls w @ new"
  using run_at_term_expectation [of "\<lambda>k. True" cc nm L A circ t w]
  by (auto simp: run_at_def)

lemma terms_loop_calls: "\<exists>new. calls (snd (terms_loop L A nm cc circ acc ts w)) = calls w @ new"
  using run_at_terms_loop [of L cc nm A circ acc ts w]
  by (auto simp: run_at_def)

lemma terms_loop_segments:
  assumes "terms_loop L A nm cc circ acc ts w = (Inr vs, w')" "i < length ts"
  shows "\<exists>wi wi' pre post.
     term_expectation L A nm cc circ (ts ! i) wi = (Inr (vs ! (length acc + i)), wi') \<and>
     heap wi = heap w \<and> calls wi = calls w @ pre \<and> calls w' = calls wi' @ post"
  using assms
proof (induction ts arbitrary: acc w i)
  case Nil
  then show ?case by simp
next
  case (Cons t ts)
  from Cons.prems(1) obtain v w1 where
    t: "term_expectation L A nm cc circ t w = (Inr v, w1)" and
    r: "terms_loop L A nm cc circ (acc @ [v]) ts w1 = (Inr vs, w')"
    by (auto split: prod.splits sum.splits)
  have h1: "heap w1 = heap w"
    using term_expectation_heap [of L A nm cc circ t w] t by simp
  from terms_loop_Inr [OF r] obtain new where vs: "vs = (acc @ [v]) @ new"
    by blast
  show ?case
  proof (cases i)
    case 0
    from terms_loop_calls [of L A nm cc circ "acc @ [v]" ts w1] r
    obtain post where "calls w' = calls w1 @ post" by auto
    with t h1 vs 0 show ?thesis
      by (intro exI [of _ w] exI [of _ w1] exI [of _ "[]"] exI [of _ post]) simp
  next
    case (Suc j)
    with Cons.prems(2) have j: "j < length ts" by simp
    from Cons.IH [OF r j] obtain wi wi' pre post where
      s: "term_expectation L A nm cc circ (ts ! j) wi = (Inr (vs ! (length (acc @ [v]) + j)), wi')"
         "heap wi = heap w1" "calls wi = calls w1 @ pre" "calls w' = calls wi' @ post"
      by blast
    from term_expectation_calls [of L A nm cc circ t w] t
    obtain n1 where "calls w1 = calls w @ n1" by auto
    with s h1 Suc show ?thesis
      by (intro exI [of _ wi] exI [of _ wi'] exI [of _ "n1 @ pre"] exI [of _ post]) simp
  qed
qed

lemma noisy_segments:
  assumes "get_exact_noisy_expectation_values L A circ ts w = (Inr rs, w')"
  shows "\<exists>nm cc vs.
     noise_model A = Some nm \<and> export_to_cirq L (heap w ! circ) = Inr cc \<and>
     expectation_values_to_real L vs = Inr rs \<and> length vs = length ts \<and>
     (\<forall>i<length ts. \<exists>arr pre post.
        get_sparse_operator L (ts ! i) (n_qubits (heap w ! circ)) = Inr arr \<and>
        (if np_size L arr = 1
         then item00 L arr = Inr (vs ! i) \<and>
           calls w' = calls w @ pre @
             [(Get_sparse_operator (ts ! i) (n_qubits (heap w ! circ)), None),
              (Item00 arr, None)] @ post
         else \<exists>noisy s res s' rho prod z.
           with_noise L cc nm = Inr noisy \<and>
           simulator A s noisy None None None = (Inr res, s') \<and>
           density_matrix_of L res = Inr rho \<and>
           np_matmul L rho arr = Inr prod \<and>
           np_trace L prod = Inr z \<and>
           vs ! i = complex_of_real (Re z) \<and>
           calls w' = calls w @ pre @
             [(Get_sparse_operator (ts ! i) (n_qubits (heap w ! circ)), None),
              (With_noise cc nm, None),
              (Simulate noisy None None None, None),
              (Density_matrix_of res, None),
              (Np_matmul rho arr, None),
              (Np_trace prod, None)] @ post))"
proof -
  define w0 where "w0 = w\<lparr>calls := calls w @ [(Export_to_cirq (heap w ! circ), None)]\<rparr>"
  from noisy_Inr [OF assms] obtain nm cc vs w2 where
    a: "noise_model A = Some nm" "export_to_cirq L (heap w ! circ) = Inr cc"
       "expectation_values_to_real L vs = Inr rs" and
    l: "terms_loop L A nm cc circ [] ts w0 = (Inr vs, w2)" and
    w': "w' = w2\<lparr>calls := calls w2 @ [(Expectation_values_to_real vs, None)]\<rparr>"
    unfolding w0_def by blast
  from terms_loop_Inr [OF l] have len: "length vs = length ts" by auto
  have "\<exists>arr pre post.
        get_sparse_operator L (ts ! i) (n_qubits (heap w ! circ)) = Inr arr \<and>
        (if np_size L arr = 1
         then item00 L arr = Inr (vs ! i) \<and>
           calls w' = calls w @ pre @
             [(Get_sparse_operator (ts ! i) (n_qubits (heap w ! circ)), None),
              (Item00 arr, None)] @ post
         else \<exists>noisy s res s' rho prod z.
           with_noise L cc nm = Inr noisy \<and>
           simulator A s noisy None None None = (Inr res, s') \<and>
           density_matrix_of L res = Inr rho \<and>
           np_matmul L rho arr = Inr prod \<and>
           np_trace L prod = Inr z \<and>
           vs ! i = complex_of_real (Re z) \<and>
           calls w' = calls w @ pre @
             [(Get_sparse_operator (ts ! i) (n_qubits (heap w ! circ)), None),
              (With_noise cc nm, None),
              (Simulate noisy None None None, None),
              (Density_matrix_of res, None),
              (Np_matmul rho arr, None),
              (Np_trace prod, None)] @ post)" if i: "i < length ts" for i
  proof -
    from terms_loop_segments [OF l i] obtain wi wi' pre post where
      t: "term_expectation L A nm cc circ (ts ! i) wi = (Inr (vs ! i), wi')" and
      h: "heap wi = heap w" and
      c1: "calls wi = calls w @ (Export_to_cirq (heap w ! circ), None) # pre" and
      c2: "calls w2 = calls wi' @ post"
      by (auto simp: w0_def)
    from term_expectation_Inr [OF t] obtain arr where
      g: "get_sparse_operator L (ts ! i) (n_qubits (heap w ! circ)) = Inr arr" and
      c: "if np_size L arr = 1
          then item00 L arr = Inr (vs ! i) \<and>
            wi' = wi\<lparr>calls := calls wi @ [(Get_sparse_operator (ts ! i) (n_qubits (heap w ! circ)), None),
                                         (Item00 arr, None)]\<rparr>
          else \<exists>noisy res s' rho prod z.
             with_noise L cc nm = Inr noisy \<and>
             simulator A (sim_state wi) noisy None None None = (Inr res, s') \<and>
             density_matrix_of L res = Inr rho \<and>
             np_matmul L rho arr = Inr prod \<and>
             np_trace L prod = Inr z \<and>
             vs ! i = complex_of_real (Re z) \<and>
             wi' = wi\<lparr>sim_state := s',
                    calls := calls wi @
                      [(Get_sparse_operator (ts ! i) (n_qubits (heap w ! circ)), None),
                       (With_noise cc nm, None),
                       (Simulate noisy None None None, None),
                       (Density_matrix_of res, None),
                       (Np_matmul rho arr, None),
                       (Np_trace prod, None)]\<rparr>"
      unfolding h by blast
    show ?thesis
    proof (cases "np_size L arr = 1")
      case True
      with c have "item00 L arr = Inr (vs ! i)"
        "calls wi' = calls wi @ [(Get_sparse_operator (ts ! i) (n_qubits (heap w ! circ)), None),
                                 (Item00 arr, None)]"
        by simp_all
      with g True c1 c2 w' show ?thesis
        by (intro exI [of _ arr] exI [of _ "(Export_to_cirq (heap w ! circ), None) # pre"]
            exI [of _ "post @ [(Expectation_values_to_real vs, None)]"]) simp
    next
      case False
      with c obtain noisy res s' rho prod z where
        d: "with_noise L cc nm = Inr noisy"
           "simulator A (sim_state wi) noisy None None None = (Inr res, s')"
           "density_matrix_of L res = Inr rho"
           "np_matmul L rho arr = Inr prod"
           "np_trace L prod = Inr z"
           "vs ! i = complex_of_real (Re z)" and
        e: "calls wi' = calls wi @
                      [(Get_sparse_operator (ts ! i) (n_qubits (heap w ! circ)), None),
                       (With_noise cc nm, None),
                       (Simulate noisy None None None, None),
                       (Density_matrix_of res, None),
                       (Np_matmul rho arr, None),
                       (Np_trace prod, None)]"
        by auto
      have "calls w' = calls w @ ((Export_to_cirq (heap w ! circ), None) # pre) @
             [(Get_sparse_operator (ts ! i) (n_qubits (heap w ! circ)), None),
              (With_noise cc nm, None),
              (Simulate noisy None None None, None),
              (Density_matrix_of res, None),
              (Np_matmul rho arr, None),
              (Np_trace prod, None)] @ (post @ [(Expectation_values_to_real vs, None)])"
        using e c1 c2 w' by simp
      with g False d show ?thesis
        by (intro exI [of _ arr] exI [of _ "(Export_to_cirq (heap w ! circ), None) # pre"]
            exI [of _ "post @ [(Expectation_values_to_real vs, None)]"])
           (simp only: if_False, blast)
    qed
  qed
  with a len show ?thesis by blast
qed

section \<open>The claims\<close>

text \<open>
  C1, as amended. The claim has \<^verbatim>\<open>get_exact_noisy_expectation_values\<close> raise
  \<^verbatim>\<open>RuntimeError\<close> exactly when the noise model is \<^verbatim>\<open>None\<close>, and always before
  converting or simulating. That fails: no library call stands in a \<^verbatim>\<open>try\<close>, so a
  \<^verbatim>\<open>RuntimeError\<close> raised inside one reaches the caller with a noise model present,
  after the conversion and with the simulator's state changed (the counterexample below).
  What holds: the adapter's own \<^verbatim>\<open>RuntimeError\<close> is raised exactly when the noise model
  is \<^verbatim>\<open>None\<close>, for every circuit and operator, and then the world is as it was: nothing
  was converted, the wrapped simulator was not called and its state is unchanged. Any
  other \<^verbatim>\<open>RuntimeError\<close> of the method is the exception that its last library call
  raised.
\<close>

theorem noise_model_precondition:
  "((\<exists>msg. fst (get_exact_noisy_expectation_values L A circ ts w) = Inl (RuntimeError msg)) \<longleftrightarrow>
      noise_model A = None) \<and>
   (noise_model A = None \<longrightarrow>
      get_exact_noisy_expectation_values L A circ ts w =
        (Inl (RuntimeError ''Please provide noise model to get exact noisy expectation values''), w)) \<and>
   (raises_RuntimeError is_runtime_error (fst (get_exact_noisy_expectation_values L A circ ts w)) \<longrightarrow>
      noise_model A = None \<or>
      (\<exists>pre k x.
         fst (get_exact_noisy_expectation_values L A circ ts w) = Inl (Raised x) \<and>
         is_runtime_error x \<and>
         calls (snd (get_exact_noisy_expectation_values L A circ ts w)) =
           calls w @ pre @ [(k, Some x)]))"
proof (cases "noise_model A")
  case None
  then show ?thesis by (simp add: get_exact_noisy_expectation_values_def)
next
  case (Some nm)
  from noisy_run [OF Some, of L circ ts w] obtain out rest where
    c: "calls (snd (get_exact_noisy_expectation_values L A circ ts w)) =
         calls w @ (Export_to_cirq (heap w ! circ), out) # rest" and
    o: "outcome_logged (fst (get_exact_noisy_expectation_values L A circ ts w))
         ((Export_to_cirq (heap w ! circ), out) # rest)"
    by blast
  from o have no: "\<not> (\<exists>msg. fst (get_exact_noisy_expectation_values L A circ ts w) =
      Inl (RuntimeError msg))"
    by (auto simp: outcome_logged_def)
  have "\<exists>pre k x.
         fst (get_exact_noisy_expectation_values L A circ ts w) = Inl (Raised x) \<and>
         is_runtime_error x \<and>
         calls (snd (get_exact_noisy_expectation_values L A circ ts w)) =
           calls w @ pre @ [(k, Some x)]"
    if r: "raises_RuntimeError is_runtime_error
      (fst (get_exact_noisy_expectation_values L A circ ts w))"
  proof (cases "fst (get_exact_noisy_expectation_values L A circ ts w)")
    case (Inr a)
    with r show ?thesis by (simp add: raises_RuntimeError_def)
  next
    case (Inl e)
    with o obtain pre k x where
      p: "(Export_to_cirq (heap w ! circ), out) # rest = pre @ [(k, Some x)]" "e = Raised x"
      by (auto simp: outcome_logged_def)
    with r Inl have "is_runtime_error x" by (simp add: raises_RuntimeError_def)
    with p Inl c show ?thesis by auto
  qed
  with no Some show ?thesis by simp
qed

theorem noise_model_precondition_witness:
  "noise_model example_plain_simulator = None \<and>
   raises_RuntimeError (\<lambda>x. x = ''RuntimeError'')
     (fst (get_exact_noisy_expectation_values example_library example_plain_simulator 0
        [ [1, -1]] example_world)) \<and>
   get_exact_noisy_expectation_values example_library example_plain_simulator 0 [ [1, -1]]
     example_world =
     (Inl (RuntimeError ''Please provide noise model to get exact noisy expectation values''),
      example_world)"
proof -
  have h: "noise_model example_plain_simulator = None"
    by (simp add: example_plain_simulator_def example_simulator_def)
  from noise_model_precondition [where L = example_library and A = example_plain_simulator
      and circ = 0 and ts = "[ [1, -1]]" and w = example_world
      and is_runtime_error = "\<lambda>x. x = ''RuntimeError''"] h
  show ?thesis by (simp add: raises_RuntimeError_def)
qed

theorem library_runtime_error_counterexample:
  "noise_model example_failing_simulator = Some ''depolarize'' \<and>
   fst (get_exact_noisy_expectation_values example_library example_failing_simulator 0
     [ [1, -1]] example_world) = Inl (Raised ''RuntimeError'') \<and>
   raises_RuntimeError (\<lambda>x. x = ''RuntimeError'')
     (fst (get_exact_noisy_expectation_values example_library example_failing_simulator 0
        [ [1, -1]] example_world)) \<and>
   sim_state (snd (get_exact_noisy_expectation_values example_library example_failing_simulator 0
     [ [1, -1]] example_world)) = 1 \<and>
   sim_state example_world = 0 \<and>
   map fst (calls (snd (get_exact_noisy_expectation_values example_library
     example_failing_simulator 0 [ [1, -1]] example_world))) =
     [Export_to_cirq \<lparr>operations = [GateOperation ''X'' [0]], n_qubits = 2\<rparr>,
      Get_sparse_operator [1, -1] 2,
      With_noise [GateOperation ''X'' [0]] ''depolarize'',
      Simulate [GateOperation ''X'' [0], GateOperation ''depolarize'' []] None None None]"
  by (simp add: example_defs example_failing_simulator_def prog_defs raises_RuntimeError_def)

text \<open>
  C2. The stored \<^verbatim>\<open>param_resolver\<close> is to be passed on every call of the wrapped
  simulator's \<^verbatim>\<open>simulate\<close>, in both paths. The wavefunction path does so; the noisy
  path does not: run with a simulator that stores a resolver, it simulates with no keyword
  argument at all.
\<close>

theorem noisy_path_ignores_param_resolver:
  "param_resolver example_simulator = Some 7 \<and>
   map fst (calls (snd (get_exact_noisy_expectation_values example_library example_simulator 0
      [ [1, -1]] example_world))) =
     [Export_to_cirq \<lparr>operations = [GateOperation ''X'' [0]], n_qubits = 2\<rparr>,
      Get_sparse_operator [1, -1] 2,
      With_noise [GateOperation ''X'' [0]] ''depolarize'',
      Simulate [GateOperation ''X'' [0], GateOperation ''depolarize'' []] None None None,
      Density_matrix_of [1, 0],
      Np_matmul [1, 0] [1, -1],
      Np_trace [1, 0],
      Expectation_values_to_real [1]]"
  by (simp add: example_defs prog_defs)



text \<open>
  C4. What a run returns is made by the library and the wrapped simulator alone. The
  state vector returned is the \<^verbatim>\<open>final_state_vector\<close> of what the wrapped simulator
  returned for the converted circuit. In the noisy path every term that is not constant
  gets the real part of the trace of the product of its array with the density matrix of
  what the wrapped simulator returned for the converted circuit with noise.
\<close>

theorem results_come_from_simulator:
  "(fst (get_wavefunction_from_native_circuit L A circ init w) = Inr sv \<longrightarrow>
      (\<exists>cc i res s'.
         export_to_cirq L (foldl circuit_add (heap w ! circ) (map I [0..<n_qubits (heap w ! circ)])) = Inr cc \<and>
         np_array_complex64 L init = Inr i \<and>
         simulator A (sim_state w) cc (param_resolver A) (Some (qubit_order A)) (Some i) = (Inr res, s') \<and>
         final_state_vector L res = Inr sv)) \<and>
   (fst (get_exact_noisy_expectation_values L A circ ts w) = Inr rs \<longrightarrow>
      (\<exists>nm cc vs.
         noise_model A = Some nm \<and> export_to_cirq L (heap w ! circ) = Inr cc \<and>
         expectation_values_to_real L vs = Inr rs \<and> length vs = length ts \<and>
         (\<forall>i<length ts. \<exists>arr.
            get_sparse_operator L (ts ! i) (n_qubits (heap w ! circ)) = Inr arr \<and>
            (np_size L arr = 1 \<or>
             (\<exists>noisy s res s' rho prod z.
                with_noise L cc nm = Inr noisy \<and>
                simulator A s noisy None None None = (Inr res, s') \<and>
                density_matrix_of L res = Inr rho \<and>
                np_matmul L rho arr = Inr prod \<and>
                np_trace L prod = Inr z \<and>
                vs ! i = complex_of_real (Re z))))))"
proof (intro conjI impI)
  assume "fst (get_wavefunction_from_native_circuit L A circ init w) = Inr sv"
  then have "get_wavefunction_from_native_circuit L A circ init w =
      (Inr sv, snd (get_wavefunction_from_native_circuit L A circ init w))"
    by (simp add: prod_eq_iff)
  from wf_Inr [OF this] show "\<exists>cc i res s'.
         export_to_cirq L (foldl circuit_add (heap w ! circ) (map I [0..<n_qubits (heap w ! circ)])) = Inr cc \<and>
         np_array_complex64 L init = Inr i \<and>
         simulator A (sim_state w) cc (param_resolver A) (Some (qubit_order A)) (Some i) = (Inr res, s') \<and>
         final_state_vector L res = Inr sv"
    by blast
next
  assume "fst (get_exact_noisy_expectation_values L A circ ts w) = Inr rs"
  then have "get_exact_noisy_expectation_values L A circ ts w =
      (Inr rs, snd (get_exact_noisy_expectation_values L A circ ts w))"
    by (simp add: prod_eq_iff)
  from noisy_terms [OF this] obtain nm cc vs where
    a: "noise_model A = Some nm" "export_to_cirq L (heap w ! circ) = Inr cc"
       "expectation_values_to_real L vs = Inr rs" "length vs = length ts" and
    each: "\<And>i. i < length ts \<Longrightarrow> \<exists>wi wi'. heap wi = heap w \<and>
        term_expectation L A nm cc circ (ts ! i) wi = (Inr (vs ! i), wi')"
    by blast
  have "\<exists>arr. get_sparse_operator L (ts ! i) (n_qubits (heap w ! circ)) = Inr arr \<and>
            (np_size L arr = 1 \<or>
             (\<exists>noisy s res s' rho prod z.
                with_noise L cc nm = Inr noisy \<and>
                simulator A s noisy None None None = (Inr res, s') \<and>
                density_matrix_of L res = Inr rho \<and>
                np_matmul L rho arr = Inr prod \<and>
                np_trace L prod = Inr z \<and>
                vs ! i = complex_of_real (Re z)))" if "i < length ts" for i
  proof -
    from each [OF that] obtain wi wi' where h: "heap wi = heap w" and
      t: "term_expectation L A nm cc circ (ts ! i) wi = (Inr (vs ! i), wi')"
      by blast
    from term_expectation_Inr [OF t] obtain arr where
      g: "get_sparse_operator L (ts ! i) (n_qubits (heap w ! circ)) = Inr arr" and
      c: "np_size L arr \<noteq> 1 \<Longrightarrow> \<exists>noisy res s' rho prod z.
             with_noise L cc nm = Inr noisy \<and>
             simulator A (sim_state wi) noisy None None None = (Inr res, s') \<and>
             density_matrix_of L res = Inr rho \<and>
             np_matmul L rho arr = Inr prod \<and>
             np_trace L prod = Inr z \<and>
             vs ! i = complex_of_real (Re z)"
      unfolding h by (auto split: if_splits)
    show ?thesis
    proof (cases "np_size L arr = 1")
      case True
      with g show ?thesis by blast
    next
      case False
      from c [OF False] g show ?thesis by blast
    qed
  qed
  with a show "\<exists>nm cc vs.
         noise_model A = Some nm \<and> export_to_cirq L (heap w ! circ) = Inr cc \<and>
         expectation_values_to_real L vs = Inr rs \<and> length vs = length ts \<and>
         (\<forall>i<length ts. \<exists>arr.
            get_sparse_operator L (ts ! i) (n_qubits (heap w ! circ)) = Inr arr \<and>
            (np_size L arr = 1 \<or>
             (\<exists>noisy s res s' rho prod z.
                with_noise L cc nm = Inr noisy \<and>
                simulator A s noisy None None None = (Inr res, s') \<and>
                density_matrix_of L res = Inr rho \<and>
                np_matmul L rho arr = Inr prod \<and>
                np_trace L prod = Inr z \<and>
                vs ! i = complex_of_real (Re z))))"
    by blast
qed

theorem results_come_from_simulator_witness:
  "fst (get_wavefunction_from_native_circuit example_library example_simulator 0 [1, 0]
     example_world) = Inr [1, 0] \<and>
   fst (get_exact_noisy_expectation_values example_library example_simulator 0 [ [3], [1, -1]]
     example_world) = Inr [3, 1] \<and>
   (\<exists>cc i res s'.
      simulator example_simulator (sim_state example_world) cc
        (param_resolver example_simulator) (Some (qubit_order example_simulator)) (Some i) =
        (Inr res, s') \<and>
      final_state_vector example_library res = Inr [1, 0])"
proof -
  have h1: "fst (get_wavefunction_from_native_circuit example_library example_simulator 0 [1, 0]
     example_world) = Inr [1, 0]"
    by (simp add: example_defs prog_defs upt_rec)
  have h2: "fst (get_exact_noisy_expectation_values example_library example_simulator 0
     [ [3], [1, -1]] example_world) = Inr [3, 1]"
    by (simp add: example_defs prog_defs)
  from results_come_from_simulator [where L = example_library and A = example_simulator
      and circ = 0 and ts = "[ [3], [1, -1]]" and w = example_world and init = "[1, 0]"
      and sv = "[1, 0]" and rs = "[3, 1]"] h1 h2
  show ?thesis by blast
qed

text \<open>
  C5. \<^verbatim>\<open>_extract_density_matrix\<close> returns what \<^verbatim>\<open>density_matrix_of\<close> returns. The
  wavefunction path ends with the simulation and the read of \<^verbatim>\<open>final_state_vector\<close> of
  its result, which is what it returns. In a run of
  \<^verbatim>\<open>get_exact_noisy_expectation_values\<close> that returns, every term that is not constant
  has its four calls in the run, one after the other: the simulation, \<^verbatim>\<open>density_matrix_of\<close>
  on its result, the product of that very matrix with the term's array, and the trace of
  the product, whose real part is the term's value.
\<close>

theorem backend_results_returned_unchanged:
  "fst (extract_density_matrix L res w) =
     (case density_matrix_of L res of Inl x \<Rightarrow> Inl (Raised x) | Inr rho \<Rightarrow> Inr rho) \<and>
   (fst (get_wavefunction_from_native_circuit L A circ init w) = Inr sv \<longrightarrow>
      (\<exists>pre cc p q i res s'.
         calls (snd (get_wavefunction_from_native_circuit L A circ init w)) =
           calls w @ pre @ [(Simulate cc p q i, None), (Final_state_vector res, None)] \<and>
         simulator A (sim_state w) cc p q i = (Inr res, s') \<and>
         final_state_vector L res = Inr sv)) \<and>
   (fst (get_exact_noisy_expectation_values L A circ ts w) = Inr rs \<longrightarrow>
      (\<exists>vs. expectation_values_to_real L vs = Inr rs \<and> length vs = length ts \<and>
         (\<forall>i<length ts.
            constant_term L (n_qubits (heap w ! circ)) (ts ! i) \<or>
            (\<exists>arr pre post noisy s res s' rho prod z.
               get_sparse_operator L (ts ! i) (n_qubits (heap w ! circ)) = Inr arr \<and>
               calls (snd (get_exact_noisy_expectation_values L A circ ts w)) =
                 calls w @ pre @
                   [(Simulate noisy None None None, None), (Density_matrix_of res, None),
                    (Np_matmul rho arr, None), (Np_trace prod, None)] @ post \<and>
               simulator A s noisy None None None = (Inr res, s') \<and>
               density_matrix_of L res = Inr rho \<and>
               np_matmul L rho arr = Inr prod \<and>
               np_trace L prod = Inr z \<and>
               vs ! i = complex_of_real (Re z)))))"
proof (intro conjI impI)
  show "fst (extract_density_matrix L res w) =
     (case density_matrix_of L res of Inl x \<Rightarrow> Inl (Raised x) | Inr rho \<Rightarrow> Inr rho)"
    by (simp add: extract_density_matrix_def lib_call_def split: sum.splits)
next
  assume "fst (get_wavefunction_from_native_circuit L A circ init w) = Inr sv"
  then have "get_wavefunction_from_native_circuit L A circ init w =
      (Inr sv, snd (get_wavefunction_from_native_circuit L A circ init w))"
    by (simp add: prod_eq_iff)
  from wf_Inr [OF this] obtain cc i res s' where
     "simulator A (sim_state w) cc (param_resolver A) (Some (qubit_order A)) (Some i) = (Inr res, s')"
     "final_state_vector L res = Inr sv"
     "calls (snd (get_wavefunction_from_native_circuit L A circ init w)) = calls w @
       [(Export_to_cirq (foldl circuit_add (heap w ! circ) (map I [0..<n_qubits (heap w ! circ)])), None),
        (Np_array_complex64 init, None)] @
       [(Simulate cc (param_resolver A) (Some (qubit_order A)) (Some i), None),
        (Final_state_vector res, None)]"
    by auto
  then show "\<exists>pre cc p q i res s'.
         calls (snd (get_wavefunction_from_native_circuit L A circ init w)) =
           calls w @ pre @ [(Simulate cc p q i, None), (Final_state_vector res, None)] \<and>
         simulator A (sim_state w) cc p q i = (Inr res, s') \<and>
         final_state_vector L res = Inr sv"
    by blast
next
  define w' where "w' = snd (get_exact_noisy_expectation_values L A circ ts w)"
  assume "fst (get_exact_noisy_expectation_values L A circ ts w) = Inr rs"
  then have run: "get_exact_noisy_expectation_values L A circ ts w = (Inr rs, w')"
    by (simp add: prod_eq_iff w'_def)
  from noisy_segments [OF run] obtain nm cc vs where
    a: "expectation_values_to_real L vs = Inr rs" "length vs = length ts" and
    each: "\<And>i. i < length ts \<Longrightarrow> \<exists>arr pre post.
        get_sparse_operator L (ts ! i) (n_qubits (heap w ! circ)) = Inr arr \<and>
        (if np_size L arr = 1
         then item00 L arr = Inr (vs ! i) \<and>
           calls w' = calls w @ pre @
             [(Get_sparse_operator (ts ! i) (n_qubits (heap w ! circ)), None),
              (Item00 arr, None)] @ post
         else \<exists>noisy s res s' rho prod z.
           with_noise L cc nm = Inr noisy \<and>
           simulator A s noisy None None None = (Inr res, s') \<and>
           density_matrix_of L res = Inr rho \<and>
           np_matmul L rho arr = Inr prod \<and>
           np_trace L prod = Inr z \<and>
           vs ! i = complex_of_real (Re z) \<and>
           calls w' = calls w @ pre @
             [(Get_sparse_operator (ts ! i) (n_qubits (heap w ! circ)), None),
              (With_noise cc nm, None),
              (Simulate noisy None None None, None),
              (Density_matrix_of res, None),
              (Np_matmul rho arr, None),
              (Np_trace prod, None)] @ post)"
    by blast
  have "constant_term L (n_qubits (heap w ! circ)) (ts ! i) \<or>
            (\<exists>arr pre post noisy s res s' rho prod z.
               get_sparse_operator L (ts ! i) (n_qubits (heap w ! circ)) = Inr arr \<and>
               calls w' =
                 calls w @ pre @
                   [(Simulate noisy None None None, None), (Density_matrix_of res, None),
                    (Np_matmul rho arr, None), (Np_trace prod, None)] @ post \<and>
               simulator A s noisy None None None = (Inr res, s') \<and>
               density_matrix_of L res = Inr rho \<and>
               np_matmul L rho arr = Inr prod \<and>
               np_trace L prod = Inr z \<and>
               vs ! i = complex_of_real (Re z))" if "i < length ts" for i
  proof -
    from each [OF that] obtain arr pre post where
      g: "get_sparse_operator L (ts ! i) (n_qubits (heap w ! circ)) = Inr arr" and
      c: "if np_size L arr = 1
         then item00 L arr = Inr (vs ! i) \<and>
           calls w' = calls w @ pre @
             [(Get_sparse_operator (ts ! i) (n_qubits (heap w ! circ)), None),
              (Item00 arr, None)] @ post
         else \<exists>noisy s res s' rho prod z.
           with_noise L cc nm = Inr noisy \<and>
           simulator A s noisy None None None = (Inr res, s') \<and>
           density_matrix_of L res = Inr rho \<and>
           np_matmul L rho arr = Inr prod \<and>
           np_trace L prod = Inr z \<and>
           vs ! i = complex_of_real (Re z) \<and>
           calls w' = calls w @ pre @
             [(Get_sparse_operator (ts ! i) (n_qubits (heap w ! circ)), None),
              (With_noise cc nm, None),
              (Simulate noisy None None None, None),
              (Density_matrix_of res, None),
              (Np_matmul rho arr, None),
              (Np_trace prod, None)] @ post"
      by blast
    show ?thesis
    proof (cases "np_size L arr = 1")
      case True
      with g show ?thesis by (simp add: constant_term_def)
    next
      case False
      from c False obtain noisy s res s' rho prod z where
        d: "simulator A s noisy None None None = (Inr res, s')"
           "density_matrix_of L res = Inr rho"
           "np_matmul L rho arr = Inr prod"
           "np_trace L prod = Inr z"
           "vs ! i = complex_of_real (Re z)" and
        e: "calls w' = calls w @ pre @
             [(Get_sparse_operator (ts ! i) (n_qubits (heap w ! circ)), None),
              (With_noise cc nm, None),
              (Simulate noisy None None None, None),
              (Density_matrix_of res, None),
              (Np_matmul rho arr, None),
              (Np_trace prod, None)] @ post"
        by auto
      from e have "calls w' = calls w @
           (pre @ [(Get_sparse_operator (ts ! i) (n_qubits (heap w ! circ)), None),
                   (With_noise cc nm, None)]) @
             [(Simulate noisy None None None, None), (Density_matrix_of res, None),
              (Np_matmul rho arr, None), (Np_trace prod, None)] @ post"
        by simp
      with g d show ?thesis by blast
    qed
  qed
  with a show "\<exists>vs. expectation_values_to_real L vs = Inr rs \<and> length vs = length ts \<and>
         (\<forall>i<length ts.
            constant_term L (n_qubits (heap w ! circ)) (ts ! i) \<or>
            (\<exists>arr pre post noisy s res s' rho prod z.
               get_sparse_operator L (ts ! i) (n_qubits (heap w ! circ)) = Inr arr \<and>
               calls (snd (get_exact_noisy_expectation_values L A circ ts w)) =
                 calls w @ pre @
                   [(Simulate noisy None None None, None), (Density_matrix_of res, None),
                    (Np_matmul rho arr, None), (Np_trace prod, None)] @ post \<and>
               simulator A s noisy None None None = (Inr res, s') \<and>
               density_matrix_of L res = Inr rho \<and>
               np_matmul L rho arr = Inr prod \<and>
               np_trace L prod = Inr z \<and>
               vs ! i = complex_of_real (Re z)))"
    unfolding w'_def by blast
qed

theorem backend_results_returned_unchanged_witness:
  "fst (get_wavefunction_from_native_circuit example_library example_simulator 0 [1, 0]
     example_world) = Inr [1, 0] \<and>
   fst (get_exact_noisy_expectation_values example_library example_simulator 0 [ [3], [1, -1]]
     example_world) = Inr [3, 1] \<and>
   (\<exists>pre post noisy res rho prod.
      calls (snd (get_exact_noisy_expectation_values example_library example_simulator 0
        [ [3], [1, -1]] example_world)) =
        calls example_world @ pre @
          [(Simulate noisy None None None, None), (Density_matrix_of res, None),
           (Np_matmul rho [1, -1], None), (Np_trace prod, None)] @ post \<and>
      density_matrix_of example_library res = Inr rho)"
proof -
  have h1: "fst (get_wavefunction_from_native_circuit example_library example_simulator 0 [1, 0]
     example_world) = Inr [1, 0]"
    by (simp add: example_defs prog_defs upt_rec)
  have h2: "fst (get_exact_noisy_expectation_values example_library example_simulator 0
     [ [3], [1, -1]] example_world) = Inr [3, 1]"
    by (simp add: example_defs prog_defs)
  have nc: "\<not> constant_term example_library (n_qubits (heap example_world ! 0)) [1, -1]"
    by (simp add: constant_term_def example_defs)
  have g: "arr = [1, -1]"
    if "get_sparse_operator example_library [1, -1] (n_qubits (heap example_world ! 0)) = Inr arr"
    for arr
    using that by (simp add: example_library_def)
  note T = backend_results_returned_unchanged [where L = example_library
      and A = example_simulator and circ = 0 and w = example_world and init = "[1, 0]"
      and sv = "[1, 0]" and ts = "[ [3], [1, -1]]" and rs = "[3, 1]" and res = "[1, 0]"]
  from T [THEN conjunct2, THEN conjunct2, THEN mp, OF h2]
  obtain vs where "\<forall>i<length [ [3], [1, -1 :: complex]].
            constant_term example_library (n_qubits (heap example_world ! 0))
              ([ [3], [1, -1]] ! i) \<or>
            (\<exists>arr pre post noisy s res s' rho prod z.
               get_sparse_operator example_library ([ [3], [1, -1]] ! i)
                 (n_qubits (heap example_world ! 0)) = Inr arr \<and>
               calls (snd (get_exact_noisy_expectation_values example_library example_simulator
                 0 [ [3], [1, -1]] example_world)) =
                 calls example_world @ pre @
                   [(Simulate noisy None None None, None), (Density_matrix_of res, None),
                    (Np_matmul rho arr, None), (Np_trace prod, None)] @ post \<and>
               simulator example_simulator s noisy None None None = (Inr res, s') \<and>
               density_matrix_of example_library res = Inr rho \<and>
               np_matmul example_library rho arr = Inr prod \<and>
               np_trace example_library prod = Inr z \<and>
               vs ! i = complex_of_real (Re z))"
    by (elim exE conjE) (rule that, assumption)
  from this [rule_format, of 1] nc obtain arr pre post noisy res rho prod where
    "get_sparse_operator example_library [1, -1] (n_qubits (heap example_world ! 0)) = Inr arr"
    "calls (snd (get_exact_noisy_expectation_values example_library example_simulator
       0 [ [3], [1, -1]] example_world)) =
       calls example_world @ pre @
         [(Simulate noisy None None None, None), (Density_matrix_of res, None),
          (Np_matmul rho arr, None), (Np_trace prod, None)] @ post"
    "density_matrix_of example_library res = Inr rho"
    by auto
  with g [of arr] have "\<exists>pre post noisy res rho prod.
      calls (snd (get_exact_noisy_expectation_values example_library example_simulator 0
        [ [3], [1, -1]] example_world)) =
        calls example_world @ pre @
          [(Simulate noisy None None None, None), (Density_matrix_of res, None),
           (Np_matmul rho [1, -1], None), (Np_trace prod, None)] @ post \<and>
      density_matrix_of example_library res = Inr rho"
    by blast
  with h1 h2 show ?thesis by blast
qed



text \<open>
  C7. Nothing is caught. In both paths a run returns a value only if no library call
  raised; otherwise its error is the exception of the last call made, unchanged, and no
  call before that one raised. The only other error is the noisy path's own
  \<^verbatim>\<open>RuntimeError\<close>, raised when the noise model is missing and before any call.
\<close>

theorem library_errors_propagate:
  "(\<exists>new. calls (snd (get_wavefunction_from_native_circuit L A circ init w)) = calls w @ new \<and>
      (case fst (get_wavefunction_from_native_circuit L A circ init w) of
         Inr sv \<Rightarrow> raised new = []
       | Inl e \<Rightarrow> (\<exists>pre k x. new = pre @ [(k, Some x)] \<and> raised pre = [] \<and> e = Raised x))) \<and>
   (\<exists>new. calls (snd (get_exact_noisy_expectation_values L A circ ts w)) = calls w @ new \<and>
      (case fst (get_exact_noisy_expectation_values L A circ ts w) of
         Inr rs \<Rightarrow> raised new = []
       | Inl e \<Rightarrow>
           (noise_model A = None \<and> new = [] \<and>
            e = RuntimeError ''Please provide noise model to get exact noisy expectation values'') \<or>
           (\<exists>pre k x. new = pre @ [(k, Some x)] \<and> raised pre = [] \<and> e = Raised x)))"
proof
  define w1 where "w1 = snd (add_identities [0..<n_qubits (heap w ! circ)] circ w)"
  define c' where "c' = foldl circuit_add (heap w ! circ) (map I [0..<n_qubits (heap w ! circ)])"
  have "run_at (\<lambda>k. True) (and_then (lib_call (Export_to_cirq c') (export_to_cirq L c'))
            (\<lambda>cirq_circuit.
          and_then (lib_call (Np_array_complex64 init) (np_array_complex64 L init))
            (\<lambda>initial_state'.
          and_then (simulate A cirq_circuit (param_resolver A) (Some (qubit_order A))
                      (Some initial_state'))
            (\<lambda>simulated_result.
          lib_call (Final_state_vector simulated_result)
            (final_state_vector L simulated_result))))) w1"
    by (intro run_at_and_then run_at_lib_call run_at_simulate) simp_all
  then obtain new where
    "calls (snd (get_wavefunction_from_native_circuit L A circ init w)) = calls w1 @ new"
    "outcome_logged (fst (get_wavefunction_from_native_circuit L A circ init w)) new"
    unfolding run_at_def wf_unfold Let_def w1_def c'_def by auto
  moreover have "calls w1 = calls w"
    by (simp add: w1_def add_identities_frame)
  ultimately show "\<exists>new. calls (snd (get_wavefunction_from_native_circuit L A circ init w)) = calls w @ new \<and>
      (case fst (get_wavefunction_from_native_circuit L A circ init w) of
         Inr sv \<Rightarrow> raised new = []
       | Inl e \<Rightarrow> (\<exists>pre k x. new = pre @ [(k, Some x)] \<and> raised pre = [] \<and> e = Raised x))"
    unfolding outcome_logged_def by auto
next
  show "\<exists>new. calls (snd (get_exact_noisy_expectation_values L A circ ts w)) = calls w @ new \<and>
      (case fst (get_exact_noisy_expectation_values L A circ ts w) of
         Inr rs \<Rightarrow> raised new = []
       | Inl e \<Rightarrow>
           (noise_model A = None \<and> new = [] \<and>
            e = RuntimeError ''Please provide noise model to get exact noisy expectation values'') \<or>
           (\<exists>pre k x. new = pre @ [(k, Some x)] \<and> raised pre = [] \<and> e = Raised x))"
  proof (cases "noise_model A")
    case None
    then show ?thesis by (simp add: get_exact_noisy_expectation_values_def)
  next
    case (Some nm)
    from noisy_run [OF Some, of L circ ts w] obtain out rest where
      "calls (snd (get_exact_noisy_expectation_values L A circ ts w)) =
         calls w @ (Export_to_cirq (heap w ! circ), out) # rest"
      "outcome_logged (fst (get_exact_noisy_expectation_values L A circ ts w))
         ((Export_to_cirq (heap w ! circ), out) # rest)"
      by blast
    then show ?thesis
      unfolding outcome_logged_def
      by (intro exI [of _ "(Export_to_cirq (heap w ! circ), out) # rest"])
         (auto split: sum.splits)
  qed
qed

theorem library_errors_propagate_witness:
  "fst (get_exact_noisy_expectation_values example_library example_simulator 0
     [ [3], [], [1, -1]] example_world) = Inl (Raised ''ValueError'') \<and>
   (\<exists>pre k.
      calls (snd (get_exact_noisy_expectation_values example_library example_simulator 0
        [ [3], [], [1, -1]] example_world)) =
        calls example_world @ pre @ [(k, Some ''ValueError'')] \<and>
      raised pre = [])"
proof -
  have h: "fst (get_exact_noisy_expectation_values example_library example_simulator 0
     [ [3], [], [1, -1]] example_world) = Inl (Raised ''ValueError'')"
    by (simp add: example_defs prog_defs)
  from library_errors_propagate [where L = example_library and A = example_simulator
      and circ = 0 and w = example_world and ts = "[ [3], [], [1, -1]]" and init = "[1, 0]"]
  show ?thesis unfolding h by auto
qed

text \<open>
  C8. The wavefunction path converts the caller's circuit followed by an identity gate on
  each qubit index \<open>0, ..., n_qubits - 1\<close>: the number of qubits stays, and every qubit
  below it is acted on by an operation. The circuits that existed before the call are
  unchanged, the caller's among them.
\<close>

theorem identities_appended_to_new_circuit:
  "\<exists>c' out rest.
     calls (snd (get_wavefunction_from_native_circuit L A circ init w)) =
       calls w @ (Export_to_cirq c', out) # rest \<and>
     operations c' = operations (heap w ! circ) @ map I [0..<n_qubits (heap w ! circ)] \<and>
     n_qubits c' = n_qubits (heap w ! circ) \<and>
     (\<forall>i<n_qubits c'. \<exists>g\<in>set (operations c'). i \<in> set (qubit_indices g)) \<and>
     take (length (heap w)) (heap (snd (get_wavefunction_from_native_circuit L A circ init w))) =
       heap w \<and>
     (circ < length (heap w) \<longrightarrow>
        heap (snd (get_wavefunction_from_native_circuit L A circ init w)) ! circ = heap w ! circ)"
proof -
  define n where "n = n_qubits (heap w ! circ)"
  define c' where "c' = foldl circuit_add (heap w ! circ) (map I [0..<n])"
  define w' where "w' = snd (get_wavefunction_from_native_circuit L A circ init w)"
  have ops: "operations c' = operations (heap w ! circ) @ map I [0..<n]"
    by (simp add: c'_def foldl_circuit_add_operations)
  have nq: "n_qubits c' = n"
    unfolding c'_def n_def by (rule foldl_circuit_add_n_qubits) simp
  have active: "\<exists>g\<in>set (operations c'). i \<in> set (qubit_indices g)" if "i < n_qubits c'" for i
  proof -
    from that nq have "I i \<in> set (operations c')" by (simp add: ops)
    moreover have "i \<in> set (qubit_indices (I i))" by (simp add: I_def)
    ultimately show ?thesis by blast
  qed
  have hp: "heap w' = heap (snd (add_identities [0..<n] circ w))"
    unfolding w'_def wf_unfold Let_def n_def by (rule wf_tail_heap)
  then have frame: "take (length (heap w)) (heap w') = heap w"
    by (simp add: add_identities_frame)
  have old: "heap w' ! circ = heap w ! circ" if "circ < length (heap w)"
  proof -
    have "heap w' ! circ = take (length (heap w)) (heap w') ! circ"
      using that by simp
    then show ?thesis by (simp add: frame)
  qed
  have "\<exists>out rest. calls w' = calls w @ (Export_to_cirq c', out) # rest"
    unfolding w'_def wf_unfold Let_def and_then_def lib_call_def simulate_def c'_def n_def
    by (auto simp: add_identities_frame split: sum.splits prod.splits)
  with ops nq active frame old show ?thesis
    unfolding w'_def n_def by blast
qed

theorem identities_appended_to_new_circuit_witness:
  "0 < length (heap example_world) \<and>
   heap (snd (get_wavefunction_from_native_circuit example_library example_simulator 0 [1, 0]
     example_world)) ! 0 = heap example_world ! 0"
proof -
  have h: "0 < length (heap example_world)"
    by (simp add: example_world_def)
  from identities_appended_to_new_circuit [where L = example_library and A = example_simulator
      and circ = 0 and w = example_world and init = "[1, 0]"] h
  show ?thesis by blast
qed

text \<open>
  C9, as amended. The claim has the returned value of a term with a one-entry array be
  that entry. That fails: the values go through \<^verbatim>\<open>expectation_values_to_real\<close> on
  return, so an entry \<open>3 + 2i\<close> comes back as \<open>3\<close> (the counterexample below). What
  holds: for such a term the value the adapter records is the entry (or the exception of
  reading it), the simulator's state is untouched and the only calls are the one for the
  array and the read, with no simulation. Any other term, once \<^verbatim>\<open>with_noise\<close> has
  returned, is simulated exactly once, on the noisy circuit. In a run that returns, the
  values handed to \<^verbatim>\<open>expectation_values_to_real\<close> hold the entry at the position of each
  constant term, and there are as many simulations as terms that are not constant. When
  \<^verbatim>\<open>expectation_values_to_real\<close> keeps the real part of each value, the value returned
  for a constant term is the real part of its entry.
\<close>

theorem constant_terms_skip_simulation:
  "(get_sparse_operator L t (n_qubits (heap w ! circ)) = Inr arr \<and> np_size L arr = 1 \<longrightarrow>
      fst (term_expectation L A nm cc circ t w) =
        (case item00 L arr of Inl x \<Rightarrow> Inl (Raised x) | Inr v \<Rightarrow> Inr v) \<and>
      sim_state (snd (term_expectation L A nm cc circ t w)) = sim_state w \<and>
      (\<exists>out. calls (snd (term_expectation L A nm cc circ t w)) =
         calls w @ [(Get_sparse_operator t (n_qubits (heap w ! circ)), None), (Item00 arr, out)])) \<and>
   (get_sparse_operator L t' (n_qubits (heap w ! circ)) = Inr arr' \<and> np_size L arr' \<noteq> 1 \<and>
    with_noise L cc nm = Inr noisy \<longrightarrow>
      (\<exists>new. calls (snd (term_expectation L A nm cc circ t' w)) = calls w @ new \<and>
         filter is_simulate (map fst new) = [Simulate noisy None None None])) \<and>
   (fst (get_exact_noisy_expectation_values L A circ ts w) = Inr rs \<longrightarrow>
      (\<exists>vs new.
         expectation_values_to_real L vs = Inr rs \<and> length vs = length ts \<and>
         (\<forall>i<length ts. \<forall>a.
            get_sparse_operator L (ts ! i) (n_qubits (heap w ! circ)) = Inr a \<and> np_size L a = 1 \<longrightarrow>
            item00 L a = Inr (vs ! i)) \<and>
         calls (snd (get_exact_noisy_expectation_values L A circ ts w)) = calls w @ new \<and>
         length (filter is_simulate (map fst new)) =
           length (filter (\<lambda>t. \<not> constant_term L (n_qubits (heap w ! circ)) t) ts))) \<and>
   (fst (get_exact_noisy_expectation_values L A circ ts w) = Inr rs \<and>
    (\<forall>xs ys. expectation_values_to_real L xs = Inr ys \<longrightarrow>
       ys = map (\<lambda>x. complex_of_real (Re x)) xs) \<longrightarrow>
      (\<forall>i<length ts. \<forall>a.
         get_sparse_operator L (ts ! i) (n_qubits (heap w ! circ)) = Inr a \<and> np_size L a = 1 \<longrightarrow>
         (\<exists>e. item00 L a = Inr e \<and> rs ! i = complex_of_real (Re e))))"
proof (intro conjI impI)
  assume a: "get_sparse_operator L t (n_qubits (heap w ! circ)) = Inr arr \<and> np_size L arr = 1"
  then have eq: "term_expectation L A nm cc circ t w =
     lib_call (Item00 arr) (item00 L arr)
       (w\<lparr>calls := calls w @ [(Get_sparse_operator t (n_qubits (heap w ! circ)), None)]\<rparr>)"
    by (intro term_expectation_constant) simp_all
  show "fst (term_expectation L A nm cc circ t w) =
       (case item00 L arr of Inl x \<Rightarrow> Inl (Raised x) | Inr v \<Rightarrow> Inr v)"
    unfolding eq by (simp add: lib_call_def split: sum.splits)
  show "sim_state (snd (term_expectation L A nm cc circ t w)) = sim_state w"
    unfolding eq by (simp add: lib_call_def split: sum.splits)
  show "\<exists>out. calls (snd (term_expectation L A nm cc circ t w)) =
         calls w @ [(Get_sparse_operator t (n_qubits (heap w ! circ)), None), (Item00 arr, out)]"
    unfolding eq by (simp add: lib_call_def split: sum.splits)
next
  assume a: "get_sparse_operator L t' (n_qubits (heap w ! circ)) = Inr arr' \<and> np_size L arr' \<noteq> 1 \<and>
    with_noise L cc nm = Inr noisy"
  then have "get_sparse_operator L t' (n_qubits (heap w ! circ)) = Inr arr'" "np_size L arr' \<noteq> 1"
    by simp_all
  from term_expectation_simulated_calls [OF this, of A nm cc] a
  obtain out out' rest' where
    c: "calls (snd (term_expectation L A nm cc circ t' w)) =
       calls w @ (Get_sparse_operator t' (n_qubits (heap w ! circ)), None) #
         (With_noise cc nm, out) # (Simulate noisy None None None, out') # rest'" and
    r: "list_all (\<lambda>k. \<not> is_simulate k) (map fst rest')"
    by auto
  from r have "filter is_simulate (map fst rest') = []"
    by (simp add: list_all_iff filter_empty_conv)
  with c show "\<exists>new. calls (snd (term_expectation L A nm cc circ t' w)) = calls w @ new \<and>
         filter is_simulate (map fst new) = [Simulate noisy None None None]"
    by (intro exI [of _ "(Get_sparse_operator t' (n_qubits (heap w ! circ)), None) #
         (With_noise cc nm, out) # (Simulate noisy None None None, out') # rest'"])
       (simp add: is_simulate_def)
next
  assume "fst (get_exact_noisy_expectation_values L A circ ts w) = Inr rs"
  then have run: "get_exact_noisy_expectation_values L A circ ts w =
      (Inr rs, snd (get_exact_noisy_expectation_values L A circ ts w))"
    by (simp add: prod_eq_iff)
  define w0 where "w0 = w\<lparr>calls := calls w @ [(Export_to_cirq (heap w ! circ), None)]\<rparr>"
  from noisy_Inr [OF run] obtain nm cc vs w2 where
    a: "noise_model A = Some nm" "export_to_cirq L (heap w ! circ) = Inr cc"
       "expectation_values_to_real L vs = Inr rs" and
    l: "terms_loop L A nm cc circ [] ts w0 = (Inr vs, w2)" and
    w': "snd (get_exact_noisy_expectation_values L A circ ts w) =
           w2\<lparr>calls := calls w2 @ [(Expectation_values_to_real vs, None)]\<rparr>"
    unfolding w0_def by blast
  from terms_loop_Inr [OF l] obtain new0 where
    nw: "vs = [] @ new0" "length new0 = length ts" and
    ea: "\<forall>i<length ts. \<exists>wi wi'.
        terms_loop L A nm cc circ [] (take i ts) w0 = (Inr ([] @ take i new0), wi) \<and>
        heap wi = heap w0 \<and>
        term_expectation L A nm cc circ (ts ! i) wi = (Inr (new0 ! i), wi')"
    by blast
  have len: "length vs = length ts" using nw by simp
  have each: "\<exists>wi wi'. heap wi = heap w \<and>
        term_expectation L A nm cc circ (ts ! i) wi = (Inr (vs ! i), wi')"
    if "i < length ts" for i
    using ea [rule_format, OF that] nw by (auto simp: w0_def)
  have entry: "item00 L a = Inr (vs ! i)"
    if "i < length ts" "get_sparse_operator L (ts ! i) (n_qubits (heap w ! circ)) = Inr a"
       "np_size L a = 1" for i a
  proof -
    from each [OF that(1)] obtain wi wi' where h: "heap wi = heap w" and
      t: "term_expectation L A nm cc circ (ts ! i) wi = (Inr (vs ! i), wi')"
      by blast
    from term_expectation_Inr [OF t] that(2,3) show ?thesis
      unfolding h by auto
  qed
  from terms_loop_simulations [OF l] obtain new where
    n: "calls w2 = calls w0 @ new"
       "length (filter is_simulate (map fst new)) =
          length (filter (\<lambda>t. \<not> constant_term L (n_qubits (heap w ! circ)) t) ts)"
    by (auto simp: w0_def)
  have "calls (snd (get_exact_noisy_expectation_values L A circ ts w)) =
      calls w @ ((Export_to_cirq (heap w ! circ), None) # new @ [(Expectation_values_to_real vs, None)])"
    using w' n by (simp add: w0_def)
  moreover have "length (filter is_simulate (map fst
      ((Export_to_cirq (heap w ! circ), None) # new @ [(Expectation_values_to_real vs, None)]))) =
      length (filter (\<lambda>t. \<not> constant_term L (n_qubits (heap w ! circ)) t) ts)"
    using n by (simp add: is_simulate_def)
  ultimately show "\<exists>vs new.
         expectation_values_to_real L vs = Inr rs \<and> length vs = length ts \<and>
         (\<forall>i<length ts. \<forall>a.
            get_sparse_operator L (ts ! i) (n_qubits (heap w ! circ)) = Inr a \<and> np_size L a = 1 \<longrightarrow>
            item00 L a = Inr (vs ! i)) \<and>
         calls (snd (get_exact_noisy_expectation_values L A circ ts w)) = calls w @ new \<and>
         length (filter is_simulate (map fst new)) =
           length (filter (\<lambda>t. \<not> constant_term L (n_qubits (heap w ! circ)) t) ts)"
    using a len entry by blast
next
  define w' where "w' = snd (get_exact_noisy_expectation_values L A circ ts w)"
  assume a: "fst (get_exact_noisy_expectation_values L A circ ts w) = Inr rs \<and>
    (\<forall>xs ys. expectation_values_to_real L xs = Inr ys \<longrightarrow>
       ys = map (\<lambda>x. complex_of_real (Re x)) xs)"
  then have run: "get_exact_noisy_expectation_values L A circ ts w = (Inr rs, w')"
    by (simp add: prod_eq_iff w'_def)
  from noisy_segments [OF run] obtain vs where
    v: "expectation_values_to_real L vs = Inr rs" "length vs = length ts" and
    each: "\<And>i. i < length ts \<Longrightarrow> \<exists>arr.
        get_sparse_operator L (ts ! i) (n_qubits (heap w ! circ)) = Inr arr \<and>
        (np_size L arr = 1 \<longrightarrow> item00 L arr = Inr (vs ! i))"
    by (elim exE conjE) (rule that, assumption, assumption, auto)
  from a v have rs: "rs = map (\<lambda>x. complex_of_real (Re x)) vs" by blast
  show "\<forall>i<length ts. \<forall>a.
         get_sparse_operator L (ts ! i) (n_qubits (heap w ! circ)) = Inr a \<and> np_size L a = 1 \<longrightarrow>
         (\<exists>e. item00 L a = Inr e \<and> rs ! i = complex_of_real (Re e))"
  proof (intro allI impI)
    fix i a
    assume i: "i < length ts" and
      g: "get_sparse_operator L (ts ! i) (n_qubits (heap w ! circ)) = Inr a \<and> np_size L a = 1"
    from each [OF i] g have "item00 L a = Inr (vs ! i)" by auto
    moreover have "rs ! i = complex_of_real (Re (vs ! i))"
      using rs i v(2) by simp
    ultimately show "\<exists>e. item00 L a = Inr e \<and> rs ! i = complex_of_real (Re e)" by blast
  qed
qed

theorem constant_terms_skip_simulation_witness:
  "get_sparse_operator example_library [3] (n_qubits (heap example_world ! 0)) = Inr [3] \<and>
   np_size example_library [3] = 1 \<and>
   get_sparse_operator example_library [1, -1] (n_qubits (heap example_world ! 0)) = Inr [1, -1] \<and>
   np_size example_library [1, -1] \<noteq> 1 \<and>
   with_noise example_library [GateOperation ''X'' [0]] ''depolarize'' =
     Inr [GateOperation ''X'' [0], GateOperation ''depolarize'' []] \<and>
   fst (get_exact_noisy_expectation_values example_library example_simulator 0 [ [3], [1, -1]]
     example_world) = Inr [3, 1] \<and>
   fst (term_expectation example_library example_simulator ''depolarize''
     [GateOperation ''X'' [0]] 0 [3] example_world) = Inr 3 \<and>
   sim_state (snd (term_expectation example_library example_simulator ''depolarize''
     [GateOperation ''X'' [0]] 0 [3] example_world)) = sim_state example_world"
proof -
  have h: "get_sparse_operator example_library [3] (n_qubits (heap example_world ! 0)) = Inr [3]"
    "np_size example_library [3] = 1"
    "get_sparse_operator example_library [1, -1] (n_qubits (heap example_world ! 0)) = Inr [1, -1]"
    "np_size example_library [1, -1] \<noteq> 1"
    "with_noise example_library [GateOperation ''X'' [0]] ''depolarize'' =
       Inr [GateOperation ''X'' [0], GateOperation ''depolarize'' []]"
    by (simp_all add: example_defs)
  have r: "fst (get_exact_noisy_expectation_values example_library example_simulator 0
     [ [3], [1, -1]] example_world) = Inr [3, 1]"
    by (simp add: example_defs prog_defs)
  have k: "\<forall>xs ys. expectation_values_to_real example_library xs = Inr ys \<longrightarrow>
       ys = map (\<lambda>x. complex_of_real (Re x)) xs"
    by (auto simp: example_library_def)
  have i: "item00 example_library [3] = Inr 3"
    by (simp add: example_defs)
  note T = constant_terms_skip_simulation [where L = example_library and A = example_simulator
      and circ = 0 and w = example_world and ts = "[ [3], [1, -1]]" and rs = "[3, 1]"
      and nm = "''depolarize''" and cc = "[GateOperation ''X'' [0]]" and t = "[3]"
      and arr = "[3]" and t' = "[1, -1]" and arr' = "[1, -1]"
      and noisy = "[GateOperation ''X'' [0], GateOperation ''depolarize'' []]"]
  from T h i r k have
    "fst (term_expectation example_library example_simulator ''depolarize''
       [GateOperation ''X'' [0]] 0 [3] example_world) = Inr 3"
    "sim_state (snd (term_expectation example_library example_simulator ''depolarize''
       [GateOperation ''X'' [0]] 0 [3] example_world)) = sim_state example_world"
    by simp_all
  with h r show ?thesis by simp
qed

theorem constant_term_returned_counterexample:
  "get_sparse_operator example_library [Complex 3 2] (n_qubits (heap example_world ! 0)) =
     Inr [Complex 3 2] \<and>
   np_size example_library [Complex 3 2] = 1 \<and>
   item00 example_library [Complex 3 2] = Inr (Complex 3 2) \<and>
   fst (get_exact_noisy_expectation_values example_library example_simulator 0
     [ [Complex 3 2]] example_world) = Inr [3] \<and>
   [3] ! 0 \<noteq> Complex 3 2"
  by (simp add: example_defs prog_defs complex_eq_iff)

text \<open>
  C10. A run that returns hands \<^verbatim>\<open>expectation_values_to_real\<close> one value per term: the
  value at position \<open>i\<close> is the one computed for term \<open>i\<close>, after the terms before it,
  and it is real unless the term is constant. When \<^verbatim>\<open>expectation_values_to_real\<close>
  keeps the real part of each value, the result has one value per term, each the real
  part of the term's value and so real.
\<close>

theorem one_real_value_per_term:
  assumes "fst (get_exact_noisy_expectation_values L A circ ts w) = Inr rs"
  shows "\<exists>nm cc vs.
     noise_model A = Some nm \<and> export_to_cirq L (heap w ! circ) = Inr cc \<and>
     expectation_values_to_real L vs = Inr rs \<and> length vs = length ts \<and>
     (\<forall>i<length ts. \<exists>wi wi'.
        terms_loop L A nm cc circ [] (take i ts)
          (w\<lparr>calls := calls w @ [(Export_to_cirq (heap w ! circ), None)]\<rparr>) = (Inr (take i vs), wi) \<and>
        term_expectation L A nm cc circ (ts ! i) wi = (Inr (vs ! i), wi') \<and>
        (constant_term L (n_qubits (heap w ! circ)) (ts ! i) \<or> Im (vs ! i) = 0)) \<and>
     ((\<forall>xs ys. expectation_values_to_real L xs = Inr ys \<longrightarrow>
                ys = map (\<lambda>x. complex_of_real (Re x)) xs) \<longrightarrow>
        length rs = length ts \<and>
        (\<forall>i<length ts. rs ! i = complex_of_real (Re (vs ! i)) \<and> Im (rs ! i) = 0))"
proof -
  from assms have run: "get_exact_noisy_expectation_values L A circ ts w =
      (Inr rs, snd (get_exact_noisy_expectation_values L A circ ts w))"
    by (simp add: prod_eq_iff)
  from noisy_terms [OF run] obtain nm cc vs where
    a: "noise_model A = Some nm" "export_to_cirq L (heap w ! circ) = Inr cc"
       "expectation_values_to_real L vs = Inr rs" "length vs = length ts" and
    each: "\<And>i. i < length ts \<Longrightarrow> \<exists>wi wi'.
        terms_loop L A nm cc circ [] (take i ts)
          (w\<lparr>calls := calls w @ [(Export_to_cirq (heap w ! circ), None)]\<rparr>) = (Inr (take i vs), wi) \<and>
        heap wi = heap w \<and>
        term_expectation L A nm cc circ (ts ! i) wi = (Inr (vs ! i), wi')"
    by blast
  have step: "\<exists>wi wi'.
        terms_loop L A nm cc circ [] (take i ts)
          (w\<lparr>calls := calls w @ [(Export_to_cirq (heap w ! circ), None)]\<rparr>) = (Inr (take i vs), wi) \<and>
        term_expectation L A nm cc circ (ts ! i) wi = (Inr (vs ! i), wi') \<and>
        (constant_term L (n_qubits (heap w ! circ)) (ts ! i) \<or> Im (vs ! i) = 0)"
    if "i < length ts" for i
  proof -
    from each [OF that] obtain wi wi' where
      l: "terms_loop L A nm cc circ [] (take i ts)
          (w\<lparr>calls := calls w @ [(Export_to_cirq (heap w ! circ), None)]\<rparr>) = (Inr (take i vs), wi)" and
      h: "heap wi = heap w" and
      t: "term_expectation L A nm cc circ (ts ! i) wi = (Inr (vs ! i), wi')"
      by blast
    from term_expectation_Inr [OF t]
    have "constant_term L (n_qubits (heap w ! circ)) (ts ! i) \<or> Im (vs ! i) = 0"
      unfolding h by (auto simp: constant_term_def split: if_splits)
    with l t show ?thesis by blast
  qed
  have final: "length rs = length ts \<and>
        (\<forall>i<length ts. rs ! i = complex_of_real (Re (vs ! i)) \<and> Im (rs ! i) = 0)"
    if "\<forall>xs ys. expectation_values_to_real L xs = Inr ys \<longrightarrow>
                ys = map (\<lambda>x. complex_of_real (Re x)) xs"
  proof -
    from that a(3) have "rs = map (\<lambda>x. complex_of_real (Re x)) vs" by blast
    then show ?thesis using a(4) by simp
  qed
  from a step final show ?thesis
    by (intro exI [of _ nm] exI [of _ cc] exI [of _ vs]) blast
qed

theorem one_real_value_per_term_witness:
  "fst (get_exact_noisy_expectation_values example_library example_simulator 0 [ [3], [1, -1]]
     example_world) = Inr [3, 1] \<and>
   (\<exists>vs. expectation_values_to_real example_library vs = Inr [3, 1] \<and>
      length vs = length [ [3], [1, -1 :: complex]])"
proof -
  have h: "fst (get_exact_noisy_expectation_values example_library example_simulator 0
     [ [3], [1, -1]] example_world) = Inr [3, 1]"
    by (simp add: example_defs prog_defs)
  from one_real_value_per_term [OF h]
  have "\<exists>vs. expectation_values_to_real example_library vs = Inr [3, 1] \<and>
      length vs = length [ [3], [1, -1 :: complex]]"
    by (elim exE conjE) (rule exI, rule conjI, assumption, assumption)
  with h show ?thesis by (rule conjI)
qed

end
